theory Spec2Isabelle
  imports Complex_Main "HOL-Library.Sublist"
begin

section \<open>JavaScript values\<close>

text \<open>
  The tracker of \<^verbatim>\<open>js/eye-tracking-utils.js\<close> is a JavaScript class. Most of its data has
  a shape fixed by the code that builds it (gaze points, rectangles, target positions) and
  is modelled by records. The calibration record is different: \<^verbatim>\<open>loadCalibrationState\<close>
  assigns whatever \<^verbatim>\<open>JSON.parse\<close> returns, unchecked, so it is modelled as a dynamically
  typed value. A finite number is a real number (the rounding of IEEE doubles is outside
  the model); \<^verbatim>\<open>NaN\<close> and the two infinities are values of their own. Gaze
  coordinates, times, rectangles and target positions are finite. Strings are byte strings:
  a character is a code unit below 256. What the browser provides
  (\<^verbatim>\<open>Date.now\<close>, \<^verbatim>\<open>Math.random\<close>, \<^verbatim>\<open>JSON.parse\<close>, \<^verbatim>\<open>JSON.stringify\<close>, the
  size of the window, the elements of the document) is an argument of the function that
  uses it.
\<close>

datatype jsval =
    JUndefined
  | JNull
  | JBool bool
  | JNum real
  | JNaN
  | JInfinity
  | JNegInfinity
  | JStr string
  | JArr "jsval list"
  | JObj "(string \<times> jsval) list"

text \<open>What \<^verbatim>\<open>if (v)\<close>, \<^verbatim>\<open>v && w\<close> and \<^verbatim>\<open>v || w\<close> test.\<close>

fun truthy :: "jsval \<Rightarrow> bool" where
  "truthy JUndefined = False"
| "truthy JNull = False"
| "truthy (JBool b) = b"
| "truthy (JNum n) = (n \<noteq> 0)"
| "truthy JNaN = False"
| "truthy JInfinity = True"
| "truthy JNegInfinity = True"
| "truthy (JStr s) = (s \<noteq> [])"
| "truthy (JArr vs) = True"
| "truthy (JObj props) = True"

text \<open>
  The property read \<^verbatim>\<open>v.name\<close> for a receiver that is neither \<^verbatim>\<open>null\<close> nor
  \<^verbatim>\<open>undefined\<close> (every read of the source is behind a truthiness test of its receiver)
  and a name that no prototype defines (\<^verbatim>\<open>completed\<close>, \<^verbatim>\<open>timestamp\<close>,
  \<^verbatim>\<open>positions\<close>): an own property of an object, \<^verbatim>\<open>undefined\<close> otherwise.
\<close>

fun getProp :: "jsval \<Rightarrow> string \<Rightarrow> jsval" where
  "getProp (JObj props) name = (case map_of props name of Some v \<Rightarrow> v | None \<Rightarrow> JUndefined)"
| "getProp v name = JUndefined"

text \<open>The assignment \<^verbatim>\<open>obj[key] = v\<close> on the properties of an object, which keep
  their insertion order: an existing key keeps its place, a new key goes last.\<close>

fun assign :: "string \<Rightarrow> 'v \<Rightarrow> (string \<times> 'v) list \<Rightarrow> (string \<times> 'v) list" where
  "assign key v [] = [(key, v)]"
| "assign key v ((k, w) # kvs) = (if k = key then (k, v) # kvs else (k, w) # assign key v kvs)"

datatype error =
    Error string
  | TypeError
  | SyntaxError

section \<open>The data of the tracker\<close>

text \<open>
  A gaze point is the object literal of the gaze listener, with the properties
  \<^verbatim>\<open>x\<close>, \<^verbatim>\<open>y\<close>, \<^verbatim>\<open>timestamp\<close>, \<^verbatim>\<open>elapsedTime\<close> and \<^verbatim>\<open>page\<close>.
  \<^verbatim>\<open>calculateDwellTimeOnAOIs\<close> reads a sixth property, \<^verbatim>\<open>time\<close>, and tests it with
  \<^verbatim>\<open>typeof ... === 'number'\<close>: the field \<open>time\<close> is \<open>Some t\<close> when the object has that
  property and it is the number \<open>t\<close>, and \<open>None\<close> when the property is missing or is not a
  number.
\<close>

record gazePoint =
  gaze_x :: real
  gaze_y :: real
  timestamp :: real
  elapsedTime :: real
  page :: string
  time :: "real option"

record position =
  pos_x :: real
  pos_y :: real

definition position_js :: "position \<Rightarrow> jsval" where
  "position_js pos = JObj [(''x'', JNum (pos_x pos)), (''y'', JNum (pos_y pos))]"

text \<open>The calls made to the external gaze engine \<^verbatim>\<open>webgazer\<close>, in the order made.\<close>

datatype engineCall =
    SetRegression string
  | SetTracker string
  | ShowVideoPreview bool
  | ShowPredictionPoints bool
  | SetGazeListener
  | Begin
  | ClearData
  | RecordScreenPosition real real
  | End
  | Pause
  | Resume

text \<open>What a listener callback is called with.\<close>

datatype payload =
    NoData
  | GazeData gazePoint
  | Value jsval
  | Failure error

type_synonym callback = nat

text \<open>
  The four fields of the constructor, and the three pieces of the environment the methods
  act on: the trace of calls to the engine, the session store
  (\<^verbatim>\<open>getItem\<close> gives \<open>None\<close> for \<^verbatim>\<open>null\<close>), and the trace of callback invocations.
  A callback is an opaque identifier: what it does is not modelled, so it neither throws nor
  calls back into the tracker.
\<close>

record eyeTracker =
  isInitialized :: bool
  gazeData :: "gazePoint list"
  calibrationData :: jsval
  listeners :: "string \<Rightarrow> callback list"
  webgazer :: "engineCall list"
  sessionStorage :: "string \<Rightarrow> string option"
  invoked :: "(callback \<times> payload) list"

text \<open>\<^verbatim>\<open>new EyeTrackingUtils()\<close> on a page whose session store holds \<open>store\<close>.\<close>

definition constructor :: "(string \<Rightarrow> string option) \<Rightarrow> eyeTracker" where
  "constructor store =
     \<lparr> isInitialized = False, gazeData = [], calibrationData = JNull,
       listeners = (\<lambda>event. []), webgazer = [], sessionStorage = store, invoked = [] \<rparr>"

section \<open>Events\<close>

definition on :: "string \<Rightarrow> callback \<Rightarrow> eyeTracker \<Rightarrow> eyeTracker" where
  "on event cb s = s\<lparr> listeners := (listeners s)(event := listeners s event @ [cb]) \<rparr>"

definition triggerEvent :: "string \<Rightarrow> payload \<Rightarrow> eyeTracker \<Rightarrow> eyeTracker" where
  "triggerEvent event data s =
     s\<lparr> invoked := invoked s @ map (\<lambda>cb. (cb, data)) (listeners s event) \<rparr>"

section \<open>Gaze capture\<close>

text \<open>
  The listener registered by \<^verbatim>\<open>init\<close>; \<open>now\<close> is \<^verbatim>\<open>Date.now()\<close> and \<open>path\<close> is
  \<^verbatim>\<open>window.location.pathname\<close>. The literal has no \<^verbatim>\<open>time\<close> property.
\<close>

definition gazeListener ::
  "(real \<times> real) option \<Rightarrow> real \<Rightarrow> real \<Rightarrow> string \<Rightarrow> eyeTracker \<Rightarrow> eyeTracker" where
  "gazeListener data elapsed now path s =
     (case data of
        None \<Rightarrow> s
      | Some (x, y) \<Rightarrow>
          let gazePoint = \<lparr> gaze_x = x, gaze_y = y, timestamp = now, elapsedTime = elapsed,
                            page = path, time = None \<rparr>;
              s1 = s\<lparr> gazeData := gazeData s @ [gazePoint] \<rparr>
          in triggerEvent ''gaze'' (GazeData gazePoint) s1)"

record initOptions =
  regression :: "string option"
  tracker :: "string option"
  showVideo :: "bool option"
  showPredictions :: "bool option"

text \<open>
  \<^verbatim>\<open>init\<close>. The engine decides whether the chain of calls succeeds: \<open>failure\<close> is
  \<open>Some (k, e)\<close> with \<open>k < 6\<close> when the \<open>k\<close>-th call of the chain throws (or, for
  \<^verbatim>\<open>begin\<close>, rejects with) \<open>e\<close>.
\<close>

definition init :: "initOptions \<Rightarrow> (nat \<times> error) option \<Rightarrow> eyeTracker \<Rightarrow> bool \<times> eyeTracker" where
  "init options failure s =
     (let chain =
            [ SetRegression (case regression options of Some r \<Rightarrow> r | None \<Rightarrow> ''ridge''),
              SetTracker (case tracker options of Some t \<Rightarrow> t | None \<Rightarrow> ''clmtrackr''),
              ShowVideoPreview (case showVideo options of Some b \<Rightarrow> b | None \<Rightarrow> True),
              ShowPredictionPoints (case showPredictions options of Some b \<Rightarrow> b | None \<Rightarrow> False),
              SetGazeListener,
              Begin ]
      in case failure of
           Some (k, e) \<Rightarrow>
             if k < length chain
             then (False, triggerEvent ''error'' (Failure e)
                            (s\<lparr> webgazer := webgazer s @ take (Suc k) chain \<rparr>))
             else (True, triggerEvent ''initialized'' NoData
                           (s\<lparr> webgazer := webgazer s @ chain, isInitialized := True \<rparr>))
         | None \<Rightarrow>
             (True, triggerEvent ''initialized'' NoData
                      (s\<lparr> webgazer := webgazer s @ chain, isInitialized := True \<rparr>)))"

text \<open>\<^verbatim>\<open>clearData\<close>, \<^verbatim>\<open>stop\<close>, \<^verbatim>\<open>pause\<close>, \<^verbatim>\<open>resume\<close>. Whether the engine is ready
  is the engine's answer to \<^verbatim>\<open>webgazer.isReady()\<close>, here any function \<open>isReady\<close> of the
  calls it has received.\<close>

definition clearData :: "eyeTracker \<Rightarrow> eyeTracker" where
  "clearData s =
     (let s1 = s\<lparr> gazeData := [] \<rparr>
      in if isInitialized s1 then s1\<lparr> webgazer := webgazer s1 @ [ClearData] \<rparr> else s1)"

definition stop :: "(engineCall list \<Rightarrow> bool) \<Rightarrow> eyeTracker \<Rightarrow> eyeTracker" where
  "stop isReady s =
     (if isInitialized s \<and> isReady (webgazer s)
      then triggerEvent ''stopped'' NoData
             (s\<lparr> webgazer := webgazer s @ [End], isInitialized := False \<rparr>)
      else s)"

definition pause :: "eyeTracker \<Rightarrow> eyeTracker" where
  "pause s =
     (if isInitialized s
      then triggerEvent ''paused'' NoData (s\<lparr> webgazer := webgazer s @ [Pause] \<rparr>)
      else s)"

definition resume :: "eyeTracker \<Rightarrow> eyeTracker" where
  "resume s =
     (if isInitialized s
      then triggerEvent ''resumed'' NoData (s\<lparr> webgazer := webgazer s @ [Resume] \<rparr>)
      else s)"

section \<open>Calibration\<close>

definition defaultPositions :: "position list" where
  "defaultPositions =
     [ \<lparr>pos_x = 10, pos_y = 10\<rparr>, \<lparr>pos_x = 50, pos_y = 10\<rparr>, \<lparr>pos_x = 90, pos_y = 10\<rparr>,
       \<lparr>pos_x = 10, pos_y = 50\<rparr>, \<lparr>pos_x = 50, pos_y = 50\<rparr>, \<lparr>pos_x = 90, pos_y = 50\<rparr>,
       \<lparr>pos_x = 10, pos_y = 90\<rparr>, \<lparr>pos_x = 50, pos_y = 90\<rparr>, \<lparr>pos_x = 90, pos_y = 90\<rparr> ]"

definition maxSamples :: nat where
  "maxSamples = 5"

text \<open>
  \<^verbatim>\<open>calibrate\<close> chains its steps with timers. The model runs the chain to its end in
  order: each timer fires, and nothing else touches the tracker in between.
  \<^verbatim>\<open>collectSample\<close> is the inner closure of \<^verbatim>\<open>collectPoint\<close>, with its counter as an
  argument.
\<close>

function collectSample :: "nat \<Rightarrow> real \<Rightarrow> real \<Rightarrow> eyeTracker \<Rightarrow> eyeTracker" where
  "collectSample samples x y s =
     (let samples' = samples + 1;
          s1 = s\<lparr> webgazer := webgazer s @ [RecordScreenPosition x y] \<rparr>
      in if samples' < maxSamples then collectSample samples' x y s1 else s1)"
  by pat_completeness auto
termination
  by (relation "measure (\<lambda>(samples, x, y, s). maxSamples - samples)") auto

definition collectPoint :: "real \<Rightarrow> real \<Rightarrow> eyeTracker \<Rightarrow> eyeTracker" where
  "collectPoint x y s = collectSample 0 x y s"

text \<open>
  \<^verbatim>\<open>processNextPoint\<close>, with the closure variables \<^verbatim>\<open>calibrationPositions\<close> and
  \<^verbatim>\<open>currentPoint\<close> as arguments. \<open>window i\<close> is
  \<^verbatim>\<open>(window.innerWidth, window.innerHeight)\<close> when target \<open>i\<close> is visited. The result is
  the value the promise resolves with. Setting \<^verbatim>\<open>completed\<close> on a record that is not an
  object is a \<^verbatim>\<open>TypeError\<close> for \<^verbatim>\<open>null\<close>, \<^verbatim>\<open>undefined\<close> and, in the strict
  mode of a class body, for a primitive; within \<^verbatim>\<open>calibrate\<close> the record is always the
  object built at its start.
\<close>

function processNextPoint ::
  "(nat \<Rightarrow> real \<times> real) \<Rightarrow> position list \<Rightarrow> nat \<Rightarrow> eyeTracker \<Rightarrow> (error + jsval) \<times> eyeTracker" where
  "processNextPoint window calibrationPositions currentPoint s =
     (if currentPoint \<ge> length calibrationPositions
      then (case calibrationData s of
              JObj props \<Rightarrow>
                let s1 = s\<lparr> calibrationData := JObj (assign ''completed'' (JBool True) props) \<rparr>;
                    s2 = triggerEvent ''calibrationCompleted'' (Value (calibrationData s1)) s1
                in (Inr (calibrationData s2), s2)
            | _ \<Rightarrow> (Inl TypeError, s))
      else
        let pos = calibrationPositions ! currentPoint;
            s1 = triggerEvent ''calibrationPoint''
                   (Value (JObj [(''index'', JNum (real currentPoint)),
                                 (''position'', position_js pos)])) s;
            x = (pos_x pos / 100) * fst (window currentPoint);
            y = (pos_y pos / 100) * snd (window currentPoint);
            s2 = collectPoint x y s1
        in processNextPoint window calibrationPositions (currentPoint + 1) s2)"
  by pat_completeness auto
termination
  by (relation "measure (\<lambda>(window, ps, currentPoint, s). length ps - currentPoint)") auto

text \<open>
  \<^verbatim>\<open>calibrate(positions = null)\<close>: \<open>positions\<close> is \<open>None\<close> when the argument is omitted
  or \<^verbatim>\<open>null\<close>, and \<open>Some ps\<close> for an array of targets (an empty array is truthy, so it is
  used as it is). \<open>now\<close> is \<^verbatim>\<open>Date.now()\<close>. The \<^verbatim>\<open>throw\<close> of the \<^verbatim>\<open>async\<close>
  method rejects its promise: \<open>Inl\<close>.
\<close>

definition calibrate ::
  "real \<Rightarrow> (nat \<Rightarrow> real \<times> real) \<Rightarrow> position list option \<Rightarrow> eyeTracker
     \<Rightarrow> (error + jsval) \<times> eyeTracker" where
  "calibrate now window positions s =
     (if \<not> isInitialized s then (Inl (Error ''Eye tracking not initialized''), s)
      else
        let calibrationPositions = (case positions of Some ps \<Rightarrow> ps | None \<Rightarrow> defaultPositions);
            s1 = s\<lparr> webgazer := webgazer s @ [ClearData] \<rparr>;
            s2 = s1\<lparr> calibrationData :=
                       JObj [ (''positions'', JArr (map position_js calibrationPositions)),
                              (''timestamp'', JNum now),
                              (''completed'', JBool False) ] \<rparr>;
            s3 = triggerEvent ''calibrationStarted'' (Value (calibrationData s2)) s2
        in processNextPoint window calibrationPositions 0 s3)"

section \<open>Session state store\<close>

text \<open>\<^verbatim>\<open>sessionStorage.getItem\<close> and \<^verbatim>\<open>sessionStorage.setItem\<close>. A store that refuses
  a write (quota) is not modelled.\<close>

definition getItem :: "string \<Rightarrow> eyeTracker \<Rightarrow> string option" where
  "getItem key s = sessionStorage s key"

definition setItem :: "string \<Rightarrow> string \<Rightarrow> eyeTracker \<Rightarrow> eyeTracker" where
  "setItem key v s = s\<lparr> sessionStorage := (sessionStorage s)(key \<mapsto> v) \<rparr>"

text \<open>
  \<^verbatim>\<open>isCalibrated\<close> returns the value of a chain of \<^verbatim>\<open>&&\<close>: the first operand that is
  not truthy, or else the last operand, the comparison with \<^verbatim>\<open>'true'\<close>.
\<close>

definition isCalibrated :: "eyeTracker \<Rightarrow> jsval" where
  "isCalibrated s =
     (if \<not> truthy (calibrationData s) then calibrationData s
      else if \<not> truthy (getProp (calibrationData s) ''completed'')
      then getProp (calibrationData s) ''completed''
      else JBool (getItem ''eyeTrackingCalibrated'' s = Some ''true''))"

text \<open>
  The method call \<^verbatim>\<open>v.toString()\<close>: a \<^verbatim>\<open>TypeError\<close> on \<^verbatim>\<open>undefined\<close> and
  \<^verbatim>\<open>null\<close>; for numbers, arrays and objects the platform's conversion \<open>toStr\<close>.
\<close>

definition toString :: "(jsval \<Rightarrow> error + string) \<Rightarrow> jsval \<Rightarrow> error + string" where
  "toString toStr v =
     (case v of
        JUndefined \<Rightarrow> Inl TypeError
      | JNull \<Rightarrow> Inl TypeError
      | JBool b \<Rightarrow> Inr (if b then ''true'' else ''false'')
      | JStr str \<Rightarrow> Inr str
      | _ \<Rightarrow> toStr v)"

text \<open>
  \<^verbatim>\<open>saveCalibrationState\<close>; \<open>stringify\<close> is the platform's \<^verbatim>\<open>JSON.stringify\<close>. The
  argument of the second \<^verbatim>\<open>setItem\<close> is evaluated after the first \<^verbatim>\<open>setItem\<close> has
  run, so an exception there leaves the flag written.
\<close>

definition saveCalibrationState ::
  "(jsval \<Rightarrow> error + string) \<Rightarrow> (jsval \<Rightarrow> string) \<Rightarrow> eyeTracker \<Rightarrow> (error + unit) \<times> eyeTracker" where
  "saveCalibrationState toStr stringify s =
     (if truthy (calibrationData s) \<and> truthy (getProp (calibrationData s) ''completed'')
      then
        let s1 = setItem ''eyeTrackingCalibrated'' ''true'' s
        in case toString toStr (getProp (calibrationData s1) ''timestamp'') of
             Inl e \<Rightarrow> (Inl e, s1)
           | Inr ts \<Rightarrow>
               let s2 = setItem ''calibrationTimestamp'' ts s1;
                   s3 = setItem ''calibrationData'' (stringify (calibrationData s2)) s2
               in (Inr (), s3)
      else (Inr (), s))"

text \<open>
  \<^verbatim>\<open>loadCalibrationState\<close>; \<open>parse\<close> is the platform's \<^verbatim>\<open>JSON.parse\<close>, \<open>None\<close>
  where it throws a \<^verbatim>\<open>SyntaxError\<close>. A stored string is truthy when it is not empty.
\<close>

definition loadCalibrationState ::
  "(string \<Rightarrow> jsval option) \<Rightarrow> eyeTracker \<Rightarrow> (error + bool) \<times> eyeTracker" where
  "loadCalibrationState parse s =
     (let calibrated = (getItem ''eyeTrackingCalibrated'' s = Some ''true'');
          timestamp = getItem ''calibrationTimestamp'' s;
          data = getItem ''calibrationData'' s
      in case (timestamp, data) of
           (Some ts, Some d) \<Rightarrow>
             if calibrated \<and> ts \<noteq> [] \<and> d \<noteq> []
             then (case parse d of
                     None \<Rightarrow> (Inl SyntaxError, s)
                   | Some v \<Rightarrow> (Inr True, s\<lparr> calibrationData := v \<rparr>))
             else (Inr False, s)
         | _ \<Rightarrow> (Inr False, s))"

section \<open>Region-of-interest analyzer\<close>

record rect =
  rect_left :: real
  rect_right :: real
  rect_top :: real
  rect_bottom :: real

text \<open>An element of the page: what \<^verbatim>\<open>el.innerText\<close> and
  \<^verbatim>\<open>el.getBoundingClientRect()\<close> give while one analysis runs.\<close>

record element =
  innerText :: string
  boundingClientRect :: rect

definition isGazeOnElement :: "real \<Rightarrow> real \<Rightarrow> element \<Rightarrow> bool" where
  "isGazeOnElement gazeX gazeY el =
     (let r = boundingClientRect el
      in gazeX \<ge> rect_left r \<and> gazeX \<le> rect_right r \<and> gazeY \<ge> rect_top r \<and> gazeY \<le> rect_bottom r)"

text \<open>\<^verbatim>\<open>String.prototype.trim\<close> on byte strings: the ASCII white space and line
  terminators (tab, line feed, vertical tab, form feed, carriage return, space).\<close>

definition whiteSpace :: "char \<Rightarrow> bool" where
  "whiteSpace c = (c \<in> set [CHR 0x09, CHR 0x0A, CHR 0x0B, CHR 0x0C, CHR 0x0D, CHR 0x20])"

definition trim :: "string \<Rightarrow> string" where
  "trim str = rev (dropWhile whiteSpace (rev (dropWhile whiteSpace str)))"

text \<open>
  The first loop of \<^verbatim>\<open>calculateDwellTimeOnAOIs\<close>. \<open>random i\<close> is what
  \<^verbatim>\<open>Math.random().toString(36).substr(2, 5)\<close> gives for the \<open>i\<close>-th element. The object
  \<^verbatim>\<open>dwellTimes\<close> is the list of its properties in insertion order, which is the order of
  \<^verbatim>\<open>Object.keys\<close> (every key contains \<^verbatim>\<open>_\<close>, so none is an array index).
\<close>

fun initDwellTimes ::
  "(nat \<Rightarrow> string) \<Rightarrow> nat \<Rightarrow> element list \<Rightarrow> (string \<times> real) list \<Rightarrow> (string \<times> real) list" where
  "initDwellTimes random i [] dwellTimes = dwellTimes"
| "initDwellTimes random i (el # els) dwellTimes =
     (let key = trim (innerText el) @ ''_'' @ random i
      in initDwellTimes random (Suc i) els (assign key 0 dwellTimes))"

text \<open>The body of the inner \<^verbatim>\<open>forEach\<close>, for one pair of consecutive gaze points and
  one element. \<^verbatim>\<open>if (key)\<close> fails on \<^verbatim>\<open>undefined\<close> and on the empty string.\<close>

definition addDwell ::
  "gazePoint \<Rightarrow> gazePoint \<Rightarrow> element \<Rightarrow> (string \<times> real) list \<Rightarrow> (string \<times> real) list" where
  "addDwell currentGaze nextGaze el dwellTimes =
     (if isGazeOnElement (gaze_x currentGaze) (gaze_y currentGaze) el
      then (case find (\<lambda>k. prefix (trim (innerText el)) k) (map fst dwellTimes) of
              None \<Rightarrow> dwellTimes
            | Some key \<Rightarrow>
                if key = [] then dwellTimes
                else
                  let duration = (case (time nextGaze, time currentGaze) of
                                    (Some tn, Some tc) \<Rightarrow> tn - tc
                                  | _ \<Rightarrow> 0)
                  in if duration > 0 \<and> duration < 500
                     then (case map_of dwellTimes key of
                             Some dwell \<Rightarrow> assign key (dwell + duration) dwellTimes
                           | None \<Rightarrow> dwellTimes)
                     else dwellTimes)
      else dwellTimes)"

text \<open>The \<^verbatim>\<open>for\<close> loop over \<^verbatim>\<open>i\<close> and \<^verbatim>\<open>i + 1\<close>.\<close>

fun dwellLoop :: "element list \<Rightarrow> gazePoint list \<Rightarrow> (string \<times> real) list \<Rightarrow> (string \<times> real) list" where
  "dwellLoop aoiElements (currentGaze # nextGaze # rest) dwellTimes =
     dwellLoop aoiElements (nextGaze # rest)
       (fold (addDwell currentGaze nextGaze) aoiElements dwellTimes)"
| "dwellLoop aoiElements points dwellTimes = dwellTimes"

text \<open>\<^verbatim>\<open>calculateDwellTimeOnAOIs\<close>; \<open>aoiElements\<close> is
  \<^verbatim>\<open>document.querySelectorAll('.aoi')\<close>, in document order, and \<open>points\<close> is the
  argument \<^verbatim>\<open>gazeData\<close>.\<close>

definition calculateDwellTimeOnAOIs ::
  "element list \<Rightarrow> (nat \<Rightarrow> string) \<Rightarrow> gazePoint list \<Rightarrow> (string \<times> real) list" where
  "calculateDwellTimeOnAOIs aoiElements random points =
     (let dwellTimes = initDwellTimes random 0 aoiElements []
      in if length points < 2 then dwellTimes
         else dwellLoop aoiElements points dwellTimes)"

text \<open>
  The total that the specification describes for one region, written from its words for
  comparison with the loop above: over the consecutive pairs of points whose earlier point
  is inside the rectangle of the region, the sum of the deltas of the \<^verbatim>\<open>time\<close>
  property that are well-formed, positive and below 500.
\<close>

fun dwellSum :: "element \<Rightarrow> gazePoint list \<Rightarrow> real" where
  "dwellSum el (earlier # later # rest) =
     (if isGazeOnElement (gaze_x earlier) (gaze_y earlier) el
      then (case (time later, time earlier) of
              (Some t2, Some t1) \<Rightarrow> (if 0 < t2 - t1 \<and> t2 - t1 < 500 then t2 - t1 else 0)
            | _ \<Rightarrow> 0)
      else 0)
     + dwellSum el (later # rest)"
| "dwellSum el points = 0"

definition getGazeDataInRange :: "real \<Rightarrow> real \<Rightarrow> eyeTracker \<Rightarrow> gazePoint list" where
  "getGazeDataInRange startTime endTime s =
     filter (\<lambda>point. timestamp point \<ge> startTime \<and> timestamp point \<le> endTime) (gazeData s)"

record gazeStats =
  totalGazePoints :: nat
  gazePointsOnElement :: nat
  gazePercentage :: real
  firstGaze :: "real option"
  lastGaze :: "real option"
  totalDwellTime :: real

definition calculateGazeStats :: "element \<Rightarrow> (real \<times> real) option \<Rightarrow> eyeTracker \<Rightarrow> gazeStats" where
  "calculateGazeStats el timeRange s =
     (let relevantGazeData = (case timeRange of
                                Some (startTime, endTime) \<Rightarrow> getGazeDataInRange startTime endTime s
                              | None \<Rightarrow> gazeData s);
          gazeOnElement = filter (\<lambda>point. isGazeOnElement (gaze_x point) (gaze_y point) el)
                            relevantGazeData
      in \<lparr> totalGazePoints = length relevantGazeData,
           gazePointsOnElement = length gazeOnElement,
           gazePercentage = (if length relevantGazeData > 0
                             then (real (length gazeOnElement) / real (length relevantGazeData)) * 100
                             else 0),
           firstGaze = (if length gazeOnElement > 0 then Some (timestamp (gazeOnElement ! 0)) else None),
           lastGaze = (if length gazeOnElement > 0
                       then Some (timestamp (gazeOnElement ! (length gazeOnElement - 1))) else None),
           totalDwellTime = (if length gazeOnElement > 0
                             then timestamp (gazeOnElement ! (length gazeOnElement - 1))
                                  - timestamp (gazeOnElement ! 0)
                             else 0) \<rparr>)"

section \<open>Exporter\<close>

record metadata =
  userAgent :: string
  screenResolution :: string
  viewportSize :: string
  exportTime :: real

record exportRecord =
  export_gazeData :: "gazePoint list"
  export_calibrationData :: jsval
  export_metadata :: metadata

text \<open>\<^verbatim>\<open>exportGazeData\<close>. The browser gives \<open>agent\<close> (\<^verbatim>\<open>navigator.userAgent\<close>), the
  sizes of the screen and of the window, \<open>now\<close> (\<^verbatim>\<open>Date.now()\<close>), and \<open>numStr\<close>, the
  conversion of a number inside a template literal.\<close>

definition exportGazeData ::
  "string \<Rightarrow> (real \<Rightarrow> string) \<Rightarrow> real \<times> real \<Rightarrow> real \<times> real \<Rightarrow> real \<Rightarrow> eyeTracker \<Rightarrow> exportRecord" where
  "exportGazeData agent numStr screen window now s =
     \<lparr> export_gazeData = gazeData s,
       export_calibrationData = calibrationData s,
       export_metadata =
         \<lparr> userAgent = agent,
           screenResolution = numStr (fst screen) @ ''x'' @ numStr (snd screen),
           viewportSize = numStr (fst window) @ ''x'' @ numStr (snd window),
           exportTime = now \<rparr> \<rparr>"

section \<open>JSON text\<close>

text \<open>
  \<^verbatim>\<open>JSON.stringify\<close> and \<^verbatim>\<open>JSON.parse\<close> belong to the platform. They are modelled
  here from their definition in ECMA-262 (\<^verbatim>\<open>SerializeJSONProperty\<close>,
  \<^verbatim>\<open>QuoteJSONString\<close> and the JSON grammar), for a call with one argument and for
  the values of \<open>jsval\<close>. Outside the model: code units above 255 (the parser refuses
  their \<^verbatim>\<open>\u\<close> escapes), the rounding of a literal to a double inside the range of
  doubles, negative zero, and the place of integer-like keys in the order of properties.
\<close>

text \<open>
  White space of the JSON grammar: space, tab, line feed, carriage return.
\<close>

definition jsonWhiteSpace :: "char \<Rightarrow> bool" where
  "jsonWhiteSpace c = (c \<in> set [CHR 0x20, CHR 0x09, CHR 0x0A, CHR 0x0D])"

definition skipWhiteSpace :: "string \<Rightarrow> string" where
  "skipWhiteSpace cs = dropWhile jsonWhiteSpace cs"

text \<open>
  \<^verbatim>\<open>QuoteJSONString\<close>: the quote, the backslash and the control characters are
  escaped, the control characters without a short escape as \<^verbatim>\<open>\u00\<close> and two
  lowercase hexadecimal digits. \<open>CHR 0x22\<close> is the quote, \<open>CHR 0x5C\<close> the backslash.
\<close>

definition hexDigit :: "nat \<Rightarrow> char" where
  "hexDigit n = ''0123456789abcdef'' ! n"

definition hexValue :: "char \<Rightarrow> nat option" where
  "hexValue c =
     (let n = (of_char c :: nat)
      in if 48 \<le> n \<and> n \<le> 57 then Some (n - 48)
         else if 97 \<le> n \<and> n \<le> 102 then Some (n - 87)
         else if 65 \<le> n \<and> n \<le> 70 then Some (n - 55)
         else None)"

definition quoteChar :: "char \<Rightarrow> string" where
  "quoteChar c =
     (if c = CHR 0x08 then [CHR 0x5C, CHR ''b'']
      else if c = CHR 0x09 then [CHR 0x5C, CHR ''t'']
      else if c = CHR 0x0A then [CHR 0x5C, CHR ''n'']
      else if c = CHR 0x0C then [CHR 0x5C, CHR ''f'']
      else if c = CHR 0x0D then [CHR 0x5C, CHR ''r'']
      else if c = CHR 0x22 then [CHR 0x5C, CHR 0x22]
      else if c = CHR 0x5C then [CHR 0x5C, CHR 0x5C]
      else if (of_char c :: nat) < 32
      then [CHR 0x5C, CHR ''u'', CHR ''0'', CHR ''0'',
            hexDigit ((of_char c :: nat) div 16), hexDigit ((of_char c :: nat) mod 16)]
      else [c])"

definition QuoteJSONString :: "string \<Rightarrow> string" where
  "QuoteJSONString str = CHR 0x22 # concat (map quoteChar str) @ [CHR 0x22]"

text \<open>
  \<^verbatim>\<open>SerializeJSONProperty\<close>. \<open>numStr\<close> is the platform's conversion of a finite
  number to a string. The result is \<open>None\<close> where the source gives \<^verbatim>\<open>undefined\<close>;
  an array writes such an element as \<^verbatim>\<open>null\<close>, an object leaves such a property out.
  \<^verbatim>\<open>NaN\<close> and the infinities are written as \<^verbatim>\<open>null\<close>.
\<close>

fun join :: "string \<Rightarrow> string list \<Rightarrow> string" where
  "join sep [] = []"
| "join sep [t] = t"
| "join sep (t # u # ts) = t @ sep @ join sep (u # ts)"

fun SerializeJSONProperty :: "(real \<Rightarrow> string) \<Rightarrow> jsval \<Rightarrow> string option" where
  "SerializeJSONProperty numStr JUndefined = None"
| "SerializeJSONProperty numStr JNull = Some ''null''"
| "SerializeJSONProperty numStr (JBool b) = Some (if b then ''true'' else ''false'')"
| "SerializeJSONProperty numStr (JNum n) = Some (numStr n)"
| "SerializeJSONProperty numStr JNaN = Some ''null''"
| "SerializeJSONProperty numStr JInfinity = Some ''null''"
| "SerializeJSONProperty numStr JNegInfinity = Some ''null''"
| "SerializeJSONProperty numStr (JStr str) = Some (QuoteJSONString str)"
| "SerializeJSONProperty numStr (JArr vs) =
     Some (''['' @ join '',''
                    (map (\<lambda>v. case SerializeJSONProperty numStr v of
                                None \<Rightarrow> ''null''
                              | Some t \<Rightarrow> t) vs)
           @ '']'')"
| "SerializeJSONProperty numStr (JObj props) =
     Some (''{'' @ join '',''
                    (concat (map (\<lambda>kv. case SerializeJSONProperty numStr (snd kv) of
                                        None \<Rightarrow> []
                                      | Some t \<Rightarrow> [QuoteJSONString (fst kv) @ '':'' @ t]) props))
           @ ''}'')"

definition JSON_stringify :: "(real \<Rightarrow> string) \<Rightarrow> jsval \<Rightarrow> string option" where
  "JSON_stringify numStr v = SerializeJSONProperty numStr v"

text \<open>
  The parser. \<open>parseChars\<close> reads a string after its opening quote, up to the closing
  quote: a raw control character is refused, an escape is decoded.
\<close>

definition unescape :: "char \<Rightarrow> char option" where
  "unescape e =
     (if e = CHR 0x22 then Some (CHR 0x22)
      else if e = CHR 0x5C then Some (CHR 0x5C)
      else if e = CHR ''/'' then Some (CHR ''/'')
      else if e = CHR ''b'' then Some (CHR 0x08)
      else if e = CHR ''f'' then Some (CHR 0x0C)
      else if e = CHR ''n'' then Some (CHR 0x0A)
      else if e = CHR ''r'' then Some (CHR 0x0D)
      else if e = CHR ''t'' then Some (CHR 0x09)
      else None)"

fun parseChars :: "string \<Rightarrow> (string \<times> string) option" where
  "parseChars [] = None"
| "parseChars (c # cs) =
     (if c = CHR 0x22 then Some ([], cs)
      else if c = CHR 0x5C then
        (case cs of
           [] \<Rightarrow> None
         | e # cs1 \<Rightarrow>
             if e = CHR ''u'' then
               (case cs1 of
                  h1 # h2 # h3 # h4 # cs2 \<Rightarrow>
                    (case (hexValue h1, hexValue h2, hexValue h3, hexValue h4) of
                       (Some d1, Some d2, Some d3, Some d4) \<Rightarrow>
                         let n = ((d1 * 16 + d2) * 16 + d3) * 16 + d4
                         in if n < 256
                            then (case parseChars cs2 of
                                    Some (str, rest) \<Rightarrow> Some (char_of n # str, rest)
                                  | None \<Rightarrow> None)
                            else None
                     | _ \<Rightarrow> None)
                | _ \<Rightarrow> None)
             else (case unescape e of
                     Some ch \<Rightarrow> (case parseChars cs1 of
                                   Some (str, rest) \<Rightarrow> Some (ch # str, rest)
                                 | None \<Rightarrow> None)
                   | None \<Rightarrow> None))
      else if (of_char c :: nat) < 32 then None
      else (case parseChars cs of
              Some (str, rest) \<Rightarrow> Some (c # str, rest)
            | None \<Rightarrow> None))"

text \<open>
  A number literal: an optional minus sign, \<^verbatim>\<open>0\<close> or a digit sequence that does
  not start with \<^verbatim>\<open>0\<close>, an optional fraction, an optional exponent. \<open>parseNumber\<close>
  gives the value of the literal and the text after it. A value at or beyond
  \<open>overflowBound\<close>, the midpoint between the largest double and \<open>2 ^ 1024\<close>, is read
  as an infinity.
\<close>

definition isDigit :: "char \<Rightarrow> bool" where
  "isDigit c = (48 \<le> (of_char c :: nat) \<and> (of_char c :: nat) \<le> 57)"

definition digitsValue :: "string \<Rightarrow> nat" where
  "digitsValue ds = foldl (\<lambda>n c. 10 * n + ((of_char c :: nat) - 48)) 0 ds"

definition parseFraction :: "string \<Rightarrow> (string \<times> string) option" where
  "parseFraction cs =
     (case cs of
        [] \<Rightarrow> Some ([], cs)
      | c # r \<Rightarrow>
          if c = CHR ''.''
          then (if takeWhile isDigit r = [] then None
                else Some (takeWhile isDigit r, dropWhile isDigit r))
          else Some ([], cs))"

definition parseExponent :: "string \<Rightarrow> (int \<times> string) option" where
  "parseExponent cs =
     (case cs of
        [] \<Rightarrow> Some (0, cs)
      | c # r \<Rightarrow>
          if c = CHR ''e'' \<or> c = CHR ''E''
          then (let (negative, r1) =
                      (case r of
                         [] \<Rightarrow> (False, r)
                       | sign # r' \<Rightarrow> if sign = CHR ''-'' then (True, r')
                                     else if sign = CHR ''+'' then (False, r')
                                     else (False, r))
                in if takeWhile isDigit r1 = [] then None
                   else Some ((if negative then - int (digitsValue (takeWhile isDigit r1))
                               else int (digitsValue (takeWhile isDigit r1))),
                              dropWhile isDigit r1))
          else Some (0, cs))"

definition scale :: "real \<Rightarrow> int \<Rightarrow> real" where
  "scale m e = (if e \<ge> 0 then m * 10 ^ nat e else m / 10 ^ nat (- e))"

definition parseNumber :: "string \<Rightarrow> (real \<times> string) option" where
  "parseNumber cs =
     (let (negative, cs1) = (case cs of
                               [] \<Rightarrow> (False, cs)
                             | c # r \<Rightarrow> if c = CHR ''-'' then (True, r) else (False, cs));
          (intDigits, cs2) = (case cs1 of
                                [] \<Rightarrow> ([], cs1)
                              | c # r \<Rightarrow> if c = CHR ''0'' then ([c], r)
                                        else (takeWhile isDigit cs1, dropWhile isDigit cs1))
      in if intDigits = [] then None
         else (case parseFraction cs2 of
                 None \<Rightarrow> None
               | Some (fracDigits, cs3) \<Rightarrow>
                   (case parseExponent cs3 of
                      None \<Rightarrow> None
                    | Some (exponent, cs4) \<Rightarrow>
                        let magnitude = scale (real (digitsValue (intDigits @ fracDigits)))
                                              (exponent - int (length fracDigits))
                        in Some ((if negative then - magnitude else magnitude), cs4))))"

definition overflowBound :: real where
  "overflowBound = 2 ^ 1024 - 2 ^ 970"

definition numberValue :: "real \<Rightarrow> jsval" where
  "numberValue x =
     (if x \<ge> overflowBound then JInfinity
      else if x \<le> - overflowBound then JNegInfinity
      else JNum x)"

text \<open>
  Values, the elements of an array after its first bracket and the members of an object
  after its first brace. The recursion is on fuel, one unit for each call;
  \<open>JSON_parse\<close> gives twice the length of the text and one more, which the parse of a
  serialized value never exhausts (\<open>parseValue_serialize\<close> below). An object is built
  member by member, so a repeated key keeps its first place and its last value.
  \<open>None\<close> is the \<^verbatim>\<open>SyntaxError\<close>.
\<close>

fun parseValue :: "nat \<Rightarrow> string \<Rightarrow> (jsval \<times> string) option"
  and parseElements :: "nat \<Rightarrow> string \<Rightarrow> (jsval list \<times> string) option"
  and parseMembers :: "nat \<Rightarrow> string \<Rightarrow> ((string \<times> jsval) list \<times> string) option" where
  "parseValue 0 cs = None"
| "parseValue (Suc fuel) cs =
     (case skipWhiteSpace cs of
        [] \<Rightarrow> None
      | c # r \<Rightarrow>
          if c = CHR ''['' then
            (case skipWhiteSpace r of
               [] \<Rightarrow> None
             | c' # r' \<Rightarrow>
                 if c' = CHR '']'' then Some (JArr [], r')
                 else (case parseElements fuel r of
                         Some (vs, rest) \<Rightarrow> Some (JArr vs, rest)
                       | None \<Rightarrow> None))
          else if c = CHR ''{'' then
            (case skipWhiteSpace r of
               [] \<Rightarrow> None
             | c' # r' \<Rightarrow>
                 if c' = CHR ''}'' then Some (JObj [], r')
                 else (case parseMembers fuel r of
                         Some (members, rest) \<Rightarrow>
                           Some (JObj (foldl (\<lambda>props kv. assign (fst kv) (snd kv) props) [] members),
                                 rest)
                       | None \<Rightarrow> None))
          else if c = CHR 0x22 then
            (case parseChars r of
               Some (str, rest) \<Rightarrow> Some (JStr str, rest)
             | None \<Rightarrow> None)
          else if take 4 (c # r) = ''null'' then Some (JNull, drop 4 (c # r))
          else if take 4 (c # r) = ''true'' then Some (JBool True, drop 4 (c # r))
          else if take 5 (c # r) = ''false'' then Some (JBool False, drop 5 (c # r))
          else (case parseNumber (c # r) of
                  Some (x, rest) \<Rightarrow> Some (numberValue x, rest)
                | None \<Rightarrow> None))"
| "parseElements 0 cs = None"
| "parseElements (Suc fuel) cs =
     (case parseValue fuel cs of
        None \<Rightarrow> None
      | Some (v, r) \<Rightarrow>
          (case skipWhiteSpace r of
             [] \<Rightarrow> None
           | c # r' \<Rightarrow>
               if c = CHR '']'' then Some ([v], r')
               else if c = CHR '','' then
                 (case parseElements fuel r' of
                    Some (vs, rest) \<Rightarrow> Some (v # vs, rest)
                  | None \<Rightarrow> None)
               else None))"
| "parseMembers 0 cs = None"
| "parseMembers (Suc fuel) cs =
     (case skipWhiteSpace cs of
        [] \<Rightarrow> None
      | q # r \<Rightarrow>
          if q = CHR 0x22 then
            (case parseChars r of
               None \<Rightarrow> None
             | Some (key, r1) \<Rightarrow>
                 (case skipWhiteSpace r1 of
                    [] \<Rightarrow> None
                  | colon # r2 \<Rightarrow>
                      if colon = CHR '':'' then
                        (case parseValue fuel r2 of
                           None \<Rightarrow> None
                         | Some (v, r3) \<Rightarrow>
                             (case skipWhiteSpace r3 of
                                [] \<Rightarrow> None
                              | c # r4 \<Rightarrow>
                                  if c = CHR ''}'' then Some ([(key, v)], r4)
                                  else if c = CHR '','' then
                                    (case parseMembers fuel r4 of
                                       Some (members, rest) \<Rightarrow> Some ((key, v) # members, rest)
                                     | None \<Rightarrow> None)
                                  else None))
                      else None))
          else None)"

definition JSON_parse :: "string \<Rightarrow> jsval option" where
  "JSON_parse text =
     (case parseValue (2 * length text + 1) text of
        Some (v, rest) \<Rightarrow> if skipWhiteSpace rest = [] then Some v else None
      | None \<Rightarrow> None)"

text \<open>
  \<^verbatim>\<open>JSON.parse(JSON.stringify(v))\<close>.
\<close>

definition roundTrip :: "(real \<Rightarrow> string) \<Rightarrow> jsval \<Rightarrow> jsval option" where
  "roundTrip numStr v =
     (case JSON_stringify numStr v of
        None \<Rightarrow> None
      | Some text \<Rightarrow> JSON_parse text)"

text \<open>
  The export as the value that is serialized: a gaze point is the object literal of the
  listener (with the property \<^verbatim>\<open>time\<close> when it has a numeric one), and the
  calibration record is the value it is.
\<close>

definition gazePointValue :: "gazePoint \<Rightarrow> jsval" where
  "gazePointValue p =
     JObj ([ (''x'', JNum (gaze_x p)), (''y'', JNum (gaze_y p)),
             (''timestamp'', JNum (timestamp p)), (''elapsedTime'', JNum (elapsedTime p)),
             (''page'', JStr (page p)) ]
           @ (case time p of Some t \<Rightarrow> [(''time'', JNum t)] | None \<Rightarrow> []))"

definition exportValue :: "exportRecord \<Rightarrow> jsval" where
  "exportValue e =
     JObj [ (''gazeData'', JArr (map gazePointValue (export_gazeData e))),
            (''calibrationData'', export_calibrationData e),
            (''metadata'',
               JObj [ (''userAgent'', JStr (userAgent (export_metadata e))),
                      (''screenResolution'', JStr (screenResolution (export_metadata e))),
                      (''viewportSize'', JStr (viewportSize (export_metadata e))),
                      (''exportTime'', JNum (exportTime (export_metadata e))) ]) ]"

text \<open>
  The values that JSON text can carry. \<open>printable numStr x\<close>: the platform prints the
  finite number \<open>x\<close> as a number literal that reads back as \<open>x\<close>; this is what
  ECMA-262 guarantees for every finite double. \<open>representable numStr v\<close>: no
  \<^verbatim>\<open>undefined\<close>, \<^verbatim>\<open>NaN\<close> or infinity occurs in \<open>v\<close>, its numbers are printable
  and the keys of each object are distinct. \<open>follows\<close> and \<open>startsValue\<close> describe
  the character after and at the start of a serialized value.
\<close>

definition printable :: "(real \<Rightarrow> string) \<Rightarrow> real \<Rightarrow> bool" where
  "printable numStr x = (parseNumber (numStr x) = Some (x, []) \<and> numberValue x = JNum x)"

fun representable :: "(real \<Rightarrow> string) \<Rightarrow> jsval \<Rightarrow> bool" where
  "representable numStr JUndefined = False"
| "representable numStr JNull = True"
| "representable numStr (JBool b) = True"
| "representable numStr (JNum x) = printable numStr x"
| "representable numStr JNaN = False"
| "representable numStr JInfinity = False"
| "representable numStr JNegInfinity = False"
| "representable numStr (JStr str) = True"
| "representable numStr (JArr vs) = (\<forall>v \<in> set vs. representable numStr v)"
| "representable numStr (JObj props) =
     (distinct (map fst props) \<and> (\<forall>kv \<in> set props. representable numStr (snd kv)))"

definition follows :: "string \<Rightarrow> bool" where
  "follows rest = (case rest of [] \<Rightarrow> True | c # r \<Rightarrow> c = CHR '','' \<or> c = CHR '']'' \<or> c = CHR ''}'')"

definition startsValue :: "char \<Rightarrow> bool" where
  "startsValue c = (c = CHR ''n'' \<or> c = CHR ''t'' \<or> c = CHR ''f'' \<or> c = CHR 0x22 \<or> c = CHR ''[''
                    \<or> c = CHR ''{'' \<or> c = CHR ''-'' \<or> isDigit c)"

section \<open>Runs of the tracker\<close>

text \<open>
  One step of the tracker: any method that changes it, with any arguments and any answer of
  the platform, or one call of the gaze listener by the engine. \<^verbatim>\<open>clearData\<close> is left
  out on purpose; the methods that only read (\<^verbatim>\<open>isGazeOnElement\<close>,
  \<^verbatim>\<open>calculateDwellTimeOnAOIs\<close>, \<^verbatim>\<open>getGazeDataInRange\<close>, \<^verbatim>\<open>calculateGazeStats\<close>,
  \<^verbatim>\<open>exportGazeData\<close>, \<^verbatim>\<open>isCalibrated\<close>) are functions of the state and make no step.
\<close>

inductive trackerStep :: "eyeTracker \<Rightarrow> eyeTracker \<Rightarrow> bool" where
  step_init: "trackerStep s (snd (init options failure s))"
| step_on: "trackerStep s (on event cb s)"
| step_triggerEvent: "trackerStep s (triggerEvent event data s)"
| step_gaze: "trackerStep s (gazeListener sample elapsed now path s)"
| step_calibrate: "trackerStep s (snd (calibrate now window positions s))"
| step_stop: "trackerStep s (stop isReady s)"
| step_pause: "trackerStep s (pause s)"
| step_resume: "trackerStep s (resume s)"
| step_save: "trackerStep s (snd (saveCalibrationState toStr stringify s))"
| step_load: "trackerStep s (snd (loadCalibrationState parse s))"

text \<open>The calls \<^verbatim>\<open>collectPoint\<close> makes to the engine for target \<open>i\<close> of \<open>ps\<close>: five
  times \<^verbatim>\<open>recordScreenPosition\<close>, at the pixel coordinates of the target.\<close>

definition targetCalls :: "(nat \<Rightarrow> real \<times> real) \<Rightarrow> position list \<Rightarrow> nat \<Rightarrow> engineCall list" where
  "targetCalls window ps i =
     replicate 5 (RecordScreenPosition ((pos_x (ps ! i) / 100) * fst (window i))
                                       ((pos_y (ps ! i) / 100) * snd (window i)))"

section \<open>Calibration: what a run does\<close>

declare collectSample.simps [simp del]
declare processNextPoint.simps [simp del]

lemma collectSample_trace:
  "samples < maxSamples \<Longrightarrow>
   collectSample samples x y s =
     s\<lparr> webgazer := webgazer s @ replicate (maxSamples - samples) (RecordScreenPosition x y) \<rparr>"
proof (induction samples x y s rule: collectSample.induct)
  case (1 samples x y s)
  show ?case
  proof (cases "Suc samples < maxSamples")
    case True
    then have "maxSamples - samples = Suc (maxSamples - Suc samples)" by simp
    with True "1.IH" [OF refl refl] show ?thesis
      by (subst collectSample.simps) (simp add: replicate_append_same Let_def)
  next
    case False
    with "1.prems" have "maxSamples - samples = 1" by simp
    with False show ?thesis
      by (subst collectSample.simps) (simp add: Let_def)
  qed
qed

lemma collectPoint_trace:
  "collectPoint x y s = s\<lparr> webgazer := webgazer s @ replicate 5 (RecordScreenPosition x y) \<rparr>"
  using collectSample_trace [of 0 x y s] by (simp add: collectPoint_def maxSamples_def)

lemma processNextPoint_result:
  "calibrationData s = JObj props \<Longrightarrow>
   fst (processNextPoint window ps i s) = Inr (JObj (assign ''completed'' (JBool True) props))
   \<and> calibrationData (snd (processNextPoint window ps i s)) = JObj (assign ''completed'' (JBool True) props)
   \<and> isInitialized (snd (processNextPoint window ps i s)) = isInitialized s
   \<and> gazeData (snd (processNextPoint window ps i s)) = gazeData s
   \<and> listeners (snd (processNextPoint window ps i s)) = listeners s
   \<and> sessionStorage (snd (processNextPoint window ps i s)) = sessionStorage s"
proof (induction window ps i s rule: processNextPoint.induct)
  case (1 window ps i s)
  show ?case
  proof (cases "i \<ge> length ps")
    case True
    with "1.prems" show ?thesis
      by (subst (1 2 3 4 5 6) processNextPoint.simps) (simp add: triggerEvent_def Let_def)
  next
    case False
    let ?s2 = "collectPoint ((pos_x (ps ! i) / 100) * fst (window i))
                 ((pos_y (ps ! i) / 100) * snd (window i))
                 (triggerEvent ''calibrationPoint''
                    (Value (JObj [(''index'', JNum (real i)), (''position'', position_js (ps ! i))])) s)"
    have cd: "calibrationData ?s2 = JObj props"
      using "1.prems" by (simp add: collectPoint_trace triggerEvent_def)
    have step: "processNextPoint window ps i s = processNextPoint window ps (i + 1) ?s2"
      using False by (subst processNextPoint.simps) (simp add: Let_def)
    from "1.IH" [OF False refl refl refl refl refl cd] show ?thesis
      unfolding step by (simp add: collectPoint_trace triggerEvent_def)
  qed
qed

lemma processNextPoint_trace:
  "calibrationData s = JObj props \<Longrightarrow>
   webgazer (snd (processNextPoint window ps i s)) =
     webgazer s @ concat (map (targetCalls window ps) [i ..< length ps])"
proof (induction window ps i s rule: processNextPoint.induct)
  case (1 window ps i s)
  show ?case
  proof (cases "i \<ge> length ps")
    case True
    with "1.prems" show ?thesis
      by (subst processNextPoint.simps) (simp add: triggerEvent_def Let_def)
  next
    case False
    let ?s2 = "collectPoint ((pos_x (ps ! i) / 100) * fst (window i))
                 ((pos_y (ps ! i) / 100) * snd (window i))
                 (triggerEvent ''calibrationPoint''
                    (Value (JObj [(''index'', JNum (real i)), (''position'', position_js (ps ! i))])) s)"
    have cd: "calibrationData ?s2 = JObj props"
      using "1.prems" by (simp add: collectPoint_trace triggerEvent_def)
    have step: "processNextPoint window ps i s = processNextPoint window ps (i + 1) ?s2"
      using False by (subst processNextPoint.simps) (simp add: Let_def)
    from False have upt: "[i ..< length ps] = i # [i + 1 ..< length ps]"
      by (simp add: upt_conv_Cons)
    from "1.IH" [OF False refl refl refl refl refl cd] show ?thesis
      unfolding step upt by (simp add: collectPoint_trace triggerEvent_def targetCalls_def)
  qed
qed

section \<open>The gaze sequence under each operation\<close>

lemma gazeData_init: "gazeData (snd (init options failure s)) = gazeData s"
  by (simp add: init_def triggerEvent_def Let_def split: option.splits prod.splits)

lemma gazeData_gazeListener:
  "gazeData (gazeListener sample elapsed now path s) =
     gazeData s @ (case sample of
                     None \<Rightarrow> []
                   | Some (x, y) \<Rightarrow> [\<lparr> gaze_x = x, gaze_y = y, timestamp = now, elapsedTime = elapsed,
                                       page = path, time = None \<rparr>])"
  by (simp add: gazeListener_def triggerEvent_def Let_def split: option.splits prod.splits)

lemma gazeData_calibrate: "gazeData (snd (calibrate now window positions s)) = gazeData s"
  using processNextPoint_result
  by (simp add: calibrate_def Let_def triggerEvent_def)

lemma gazeData_stop: "gazeData (stop isReady s) = gazeData s"
  by (simp add: stop_def triggerEvent_def)

lemma gazeData_pause: "gazeData (pause s) = gazeData s"
  by (simp add: pause_def triggerEvent_def)

lemma gazeData_resume: "gazeData (resume s) = gazeData s"
  by (simp add: resume_def triggerEvent_def)

lemma gazeData_save: "gazeData (snd (saveCalibrationState toStr stringify s)) = gazeData s"
  by (simp add: saveCalibrationState_def setItem_def Let_def split: sum.splits)

lemma gazeData_load: "gazeData (snd (loadCalibrationState parse s)) = gazeData s"
  by (simp add: loadCalibrationState_def Let_def split: option.splits)

lemma trackerStep_prefix: "trackerStep s s' \<Longrightarrow> prefix (gazeData s) (gazeData s')"
  by (induction rule: trackerStep.induct)
     (simp_all add: gazeData_init gazeData_gazeListener gazeData_calibrate gazeData_stop
        gazeData_pause gazeData_resume gazeData_save gazeData_load on_def triggerEvent_def)

lemma trackerSteps_prefix: "trackerStep\<^sup>*\<^sup>* s s' \<Longrightarrow> prefix (gazeData s) (gazeData s')"
  by (induction rule: rtranclp_induct) (auto dest: trackerStep_prefix intro: prefix_order.trans)

section \<open>JSON text: a serialized value parses to itself\<close>

subsection \<open>Strings\<close>

lemma hexValue_hexDigit: "k < 16 \<Longrightarrow> hexValue (hexDigit k) = Some k"
proof -
  assume "k < 16"
  then have "k = 0 \<or> k = 1 \<or> k = 2 \<or> k = 3 \<or> k = 4 \<or> k = 5 \<or> k = 6 \<or> k = 7
    \<or> k = 8 \<or> k = 9 \<or> k = 10 \<or> k = 11 \<or> k = 12 \<or> k = 13 \<or> k = 14 \<or> k = 15"
    by arith
  then show ?thesis
    by (elim disjE) (simp_all add: hexValue_def hexDigit_def)
qed

lemma hexValue_zero: "hexValue (CHR ''0'') = Some 0"
  by (simp add: hexValue_def)

lemma parseChars_quoteChar:
  "parseChars (quoteChar c @ cs) =
     (case parseChars cs of Some (str, rest) \<Rightarrow> Some (c # str, rest) | None \<Rightarrow> None)"
proof (cases "c \<in> {CHR 0x08, CHR 0x09, CHR 0x0A, CHR 0x0C, CHR 0x0D, CHR 0x22, CHR 0x5C}")
  case True
  then show ?thesis
    by (auto simp: quoteChar_def unescape_def)
next
  case False
  show ?thesis
  proof (cases "(of_char c :: nat) < 32")
    case True
    then have d: "(of_char c :: nat) div 16 < 16" "(of_char c :: nat) mod 16 < 16" by simp_all
    have lt: "(of_char c :: nat) < 256" using True by simp
    from False True show ?thesis
      by (simp add: quoteChar_def hexValue_hexDigit [OF d(1)] hexValue_hexDigit [OF d(2)]
            hexValue_zero lt split: option.splits)
  next
    case False
    with \<open>c \<notin> _\<close> show ?thesis
      by (simp add: quoteChar_def)
  qed
qed

lemma parseChars_quoted:
  "parseChars (concat (map quoteChar str) @ CHR 0x22 # rest) = Some (str, rest)"
  by (induction str) (simp_all add: parseChars_quoteChar del: parseChars.simps, simp)


subsection \<open>Numbers\<close>

lemma follows_not_digit: "follows (c # r) \<Longrightarrow> \<not> isDigit c"
  by (auto simp: follows_def isDigit_def)

lemma digits_append:
  "follows rest \<Longrightarrow>
   takeWhile isDigit (xs @ rest) = takeWhile isDigit xs
   \<and> dropWhile isDigit (xs @ rest) = dropWhile isDigit xs @ rest"
proof (induction xs)
  case Nil
  then show ?case by (cases rest) (simp_all add: follows_not_digit)
next
  case (Cons x xs)
  then show ?case by simp
qed

lemma parseFraction_append:
  "follows rest \<Longrightarrow> parseFraction cs = Some (ds, cs') \<Longrightarrow>
   parseFraction (cs @ rest) = Some (ds, cs' @ rest)"
  by (cases cs; cases rest)
     (auto simp: parseFraction_def digits_append follows_def split: if_splits)

lemma parseExponent_append:
  "follows rest \<Longrightarrow> parseExponent cs = Some (e, cs') \<Longrightarrow>
   parseExponent (cs @ rest) = Some (e, cs' @ rest)"
proof (cases cs)
  case Nil
  assume "follows rest" "parseExponent cs = Some (e, cs')"
  with Nil show ?thesis
    by (cases rest) (auto simp: parseExponent_def follows_def)
next
  case (Cons c r)
  assume f: "follows rest" and p: "parseExponent cs = Some (e, cs')"
  show ?thesis
  proof (cases "c = CHR ''e'' \<or> c = CHR ''E''")
    case False
    with Cons p show ?thesis by (auto simp: parseExponent_def)
  next
    case True
    show ?thesis
    proof (cases r)
      case Nil
      with Cons True p show ?thesis by (auto simp: parseExponent_def)
    next
      case (Cons sign r')
      with \<open>cs = c # r\<close> True p f show ?thesis
        by (auto simp: parseExponent_def digits_append Let_def split: if_splits)
    qed
  qed
qed

lemma parseNumber_append:
  assumes f: "follows rest" and p: "parseNumber cs = Some (x, cs')"
  shows "parseNumber (cs @ rest) = Some (x, cs' @ rest)"
proof -
  obtain negative cs1 where sign:
    "(case cs of [] \<Rightarrow> (False, cs) | c # r \<Rightarrow> if c = CHR ''-'' then (True, r) else (False, cs))
     = (negative, cs1)"
    by (cases "(case cs of [] \<Rightarrow> (False, cs) | c # r \<Rightarrow> if c = CHR ''-'' then (True, r) else (False, cs))")
  obtain intDigits cs2 where ints:
    "(case cs1 of [] \<Rightarrow> ([], cs1) | c # r \<Rightarrow> if c = CHR ''0'' then ([c], r)
                                          else (takeWhile isDigit cs1, dropWhile isDigit cs1))
     = (intDigits, cs2)"
    by (cases "(case cs1 of [] \<Rightarrow> ([], cs1) | c # r \<Rightarrow> if c = CHR ''0'' then ([c], r)
                                          else (takeWhile isDigit cs1, dropWhile isDigit cs1))")
  from p sign ints have nonempty: "intDigits \<noteq> []"
    by (auto simp: parseNumber_def Let_def split: if_splits)
  from p sign ints nonempty obtain fracDigits cs3 where frac: "parseFraction cs2 = Some (fracDigits, cs3)"
    by (auto simp: parseNumber_def Let_def split: option.splits)
  from p sign ints nonempty frac obtain exponent where ex: "parseExponent cs3 = Some (exponent, cs')"
    and x: "x = (if negative then - scale (real (digitsValue (intDigits @ fracDigits)))
                                      (exponent - int (length fracDigits))
                 else scale (real (digitsValue (intDigits @ fracDigits)))
                            (exponent - int (length fracDigits)))"
    by (auto simp: parseNumber_def Let_def split: option.splits)
  from nonempty ints have cs1: "cs1 \<noteq> []" by (cases cs1) auto
  from sign cs1 have cs: "cs \<noteq> []" by (cases cs) auto
  have sign': "(case cs @ rest of [] \<Rightarrow> (False, cs @ rest)
                | c # r \<Rightarrow> if c = CHR ''-'' then (True, r) else (False, cs @ rest))
               = (negative, cs1 @ rest)"
    using sign cs by (cases cs) (auto split: if_splits)
  have ints': "(case cs1 @ rest of [] \<Rightarrow> ([], cs1 @ rest)
                | c # r \<Rightarrow> if c = CHR ''0'' then ([c], r)
                         else (takeWhile isDigit (cs1 @ rest), dropWhile isDigit (cs1 @ rest)))
               = (intDigits, cs2 @ rest)"
    using ints cs1 f by (cases cs1) (auto simp: digits_append split: if_splits)
  have "parseNumber (cs @ rest) =
          (if intDigits = [] then None
           else (case parseFraction (cs2 @ rest) of
                   None \<Rightarrow> None
                 | Some (fracDigits, cs3) \<Rightarrow>
                     (case parseExponent cs3 of
                        None \<Rightarrow> None
                      | Some (exponent, cs4) \<Rightarrow>
                          let magnitude = scale (real (digitsValue (intDigits @ fracDigits)))
                                                (exponent - int (length fracDigits))
                          in Some ((if negative then - magnitude else magnitude), cs4))))"
    by (simp only: parseNumber_def sign' Let_def prod.case ints')
  with nonempty parseFraction_append [OF f frac] parseExponent_append [OF f ex] x
  show ?thesis
    by (simp add: Let_def)
qed

lemma parseNumber_first:
  "parseNumber cs = Some (x, r) \<Longrightarrow> \<exists>c cs'. cs = c # cs' \<and> (c = CHR ''-'' \<or> isDigit c)"
proof (cases cs)
  case Nil
  assume "parseNumber cs = Some (x, r)"
  with Nil show ?thesis by (simp add: parseNumber_def)
next
  case (Cons c cs')
  assume p: "parseNumber cs = Some (x, r)"
  show ?thesis
  proof (cases "c = CHR ''-'' \<or> c = CHR ''0''")
    case True
    with Cons show ?thesis by (auto simp: isDigit_def)
  next
    case False
    with p Cons have "takeWhile isDigit (c # cs') \<noteq> []"
      by (auto simp: parseNumber_def Let_def split: if_splits)
    then have "isDigit c" by (auto split: if_splits)
    with Cons show ?thesis by simp
  qed
qed


subsection \<open>Values\<close>


lemma skipWhiteSpace_Cons: "\<not> jsonWhiteSpace c \<Longrightarrow> skipWhiteSpace (c # cs) = c # cs"
  by (simp add: skipWhiteSpace_def)

lemma startsValue_not_space: "startsValue c \<Longrightarrow> \<not> jsonWhiteSpace c"
  by (auto simp: startsValue_def jsonWhiteSpace_def isDigit_def)

lemma startsValue_not_close: "startsValue c \<Longrightarrow> c \<noteq> CHR '']'' \<and> c \<noteq> CHR ''}''"
  by (auto simp: startsValue_def isDigit_def)

lemma number_start:
  "c = CHR ''-'' \<or> isDigit c \<Longrightarrow>
   \<not> jsonWhiteSpace c \<and> c \<noteq> CHR ''['' \<and> c \<noteq> CHR ''{'' \<and> c \<noteq> CHR 0x22
   \<and> c \<noteq> CHR ''n'' \<and> c \<noteq> CHR ''t'' \<and> c \<noteq> CHR ''f''"
  by (auto simp: jsonWhiteSpace_def isDigit_def)

lemma serialize_starts:
  "representable numStr v \<Longrightarrow> \<exists>c t. SerializeJSONProperty numStr v = Some (c # t) \<and> startsValue c"
proof (cases v)
  case (JNum x)
  assume "representable numStr v"
  with JNum have "parseNumber (numStr x) = Some (x, [])" by (simp add: printable_def)
  from parseNumber_first [OF this] JNum show ?thesis
    by (auto simp: startsValue_def)
qed (auto simp: startsValue_def QuoteJSONString_def)

lemma assign_fresh: "key \<notin> fst ` set props \<Longrightarrow> assign key v props = props @ [(key, v)]"
  by (induction props) auto

lemma foldl_assign_distinct:
  "distinct (map fst (acc @ members)) \<Longrightarrow>
   foldl (\<lambda>props kv. assign (fst kv) (snd kv) props) acc members = acc @ members"
proof (induction members arbitrary: acc)
  case Nil
  then show ?case by simp
next
  case (Cons kv members)
  from Cons.prems have fresh: "fst kv \<notin> fst ` set acc" by auto
  from Cons.prems have "distinct (map fst ((acc @ [kv]) @ members))" by simp
  from Cons.IH [OF this] fresh show ?case
    by (simp add: assign_fresh)
qed

lemma parseElements_join:
  assumes ih: "\<And>v t rest fuel. v \<in> set vs \<Longrightarrow> SerializeJSONProperty numStr v = Some t \<Longrightarrow>
                 follows rest \<Longrightarrow> 2 * length (t @ rest) < fuel \<Longrightarrow>
                 parseValue fuel (t @ rest) = Some (v, rest)"
    and rep: "\<forall>v \<in> set vs. representable numStr v"
    and ne: "vs \<noteq> []"
  shows "2 * length (join '','' (map (\<lambda>v. case SerializeJSONProperty numStr v of
                                          None \<Rightarrow> ''null'' | Some t \<Rightarrow> t) vs)
                     @ CHR '']'' # rest) + 1 < fuel \<Longrightarrow>
         parseElements fuel
           (join '','' (map (\<lambda>v. case SerializeJSONProperty numStr v of
                                   None \<Rightarrow> ''null'' | Some t \<Rightarrow> t) vs) @ CHR '']'' # rest)
         = Some (vs, rest)"
  using ih rep ne
proof (induction vs arbitrary: fuel)
  case Nil
  then show ?case by simp
next
  case (Cons v vs)
  from Cons.prems(3) serialize_starts [of numStr v] obtain c t where
    t: "SerializeJSONProperty numStr v = Some (c # t)" by auto
  from Cons.prems(1) obtain n where fuel: "fuel = Suc n" by (cases fuel) auto
  show ?case
  proof (cases vs)
    case Nil
    have "parseValue n ((c # t) @ CHR '']'' # rest) = Some (v, CHR '']'' # rest)"
      using Cons.prems(1) fuel Nil t
      by (intro Cons.prems(2)) (simp_all add: follows_def)
    with Nil t fuel show ?thesis
      by (simp add: skipWhiteSpace_Cons jsonWhiteSpace_def)
  next
    case (Cons u us)
    let ?tail = "join '','' (map (\<lambda>v. case SerializeJSONProperty numStr v of
                                          None \<Rightarrow> ''null'' | Some t \<Rightarrow> t) vs) @ CHR '']'' # rest"
    have v: "parseValue n ((c # t) @ CHR '','' # ?tail) = Some (v, CHR '','' # ?tail)"
      using Cons.prems(1) fuel Cons t
      by (intro Cons.prems(2)) (simp_all add: follows_def)
    have tl: "parseElements n ?tail = Some (vs, rest)"
      using Cons.prems fuel Cons t
      by (intro Cons.IH) simp_all
    from v tl Cons t fuel show ?thesis
      by (simp add: skipWhiteSpace_Cons jsonWhiteSpace_def)
  qed
qed


lemma members_text:
  "\<forall>kv \<in> set props. representable numStr (snd kv) \<Longrightarrow>
   concat (map (\<lambda>kv. case SerializeJSONProperty numStr (snd kv) of
                       None \<Rightarrow> []
                     | Some t \<Rightarrow> [QuoteJSONString (fst kv) @ '':'' @ t]) props)
   = map (\<lambda>kv. QuoteJSONString (fst kv) @ '':'' @ the (SerializeJSONProperty numStr (snd kv))) props"
proof (induction props)
  case Nil
  then show ?case by simp
next
  case (Cons kv props)
  from Cons.prems serialize_starts [of numStr "snd kv"] obtain t where
    "SerializeJSONProperty numStr (snd kv) = Some t" by auto
  with Cons show ?case by simp
qed

lemma parseMembers_join:
  assumes ih: "\<And>kv t rest fuel. kv \<in> set props \<Longrightarrow> SerializeJSONProperty numStr (snd kv) = Some t \<Longrightarrow>
                 follows rest \<Longrightarrow> 2 * length (t @ rest) < fuel \<Longrightarrow>
                 parseValue fuel (t @ rest) = Some (snd kv, rest)"
    and rep: "\<forall>kv \<in> set props. representable numStr (snd kv)"
    and ne: "props \<noteq> []"
  shows "2 * length (join '','' (map (\<lambda>kv. QuoteJSONString (fst kv) @ '':''
                                          @ the (SerializeJSONProperty numStr (snd kv))) props)
                     @ CHR ''}'' # rest) + 1 < fuel \<Longrightarrow>
         parseMembers fuel
           (join '','' (map (\<lambda>kv. QuoteJSONString (fst kv) @ '':''
                                   @ the (SerializeJSONProperty numStr (snd kv))) props)
            @ CHR ''}'' # rest)
         = Some (props, rest)"
  using ih rep ne
proof (induction props arbitrary: fuel)
  case Nil
  then show ?case by simp
next
  case (Cons kv props)
  obtain key v where kv: "kv = (key, v)" by (cases kv)
  from Cons.prems(3) serialize_starts [of numStr "snd kv"] obtain t where
    t: "SerializeJSONProperty numStr (snd kv) = Some t" by auto
  from Cons.prems(1) obtain n where fuel: "fuel = Suc n" by (cases fuel) auto
  show ?case
  proof (cases props)
    case Nil
    have "parseValue n (t @ CHR ''}'' # rest) = Some (snd kv, CHR ''}'' # rest)"
      using Cons.prems(1) fuel Nil t
      by (intro Cons.prems(2)) (simp_all add: follows_def QuoteJSONString_def)
    with Nil t fuel kv show ?thesis
      by (simp add: skipWhiteSpace_Cons jsonWhiteSpace_def QuoteJSONString_def parseChars_quoted
            del: parseChars.simps)
  next
    case (Cons kv' props')
    let ?tail = "join '','' (map (\<lambda>kv. QuoteJSONString (fst kv) @ '':''
                                          @ the (SerializeJSONProperty numStr (snd kv))) props)
                 @ CHR ''}'' # rest"
    have v: "parseValue n (t @ CHR '','' # ?tail) = Some (snd kv, CHR '','' # ?tail)"
      using Cons.prems(1) fuel Cons t
      by (intro Cons.prems(2)) (simp_all add: follows_def QuoteJSONString_def)
    have tl: "parseMembers n ?tail = Some (props, rest)"
      using Cons.prems fuel Cons t
      by (intro Cons.IH) (simp_all add: QuoteJSONString_def)
    from v tl Cons t fuel kv show ?thesis
      by (simp add: skipWhiteSpace_Cons jsonWhiteSpace_def QuoteJSONString_def parseChars_quoted
            del: parseChars.simps)
  qed
qed

lemma parseValue_serialize:
  "representable numStr v \<Longrightarrow> SerializeJSONProperty numStr v = Some t \<Longrightarrow> follows rest \<Longrightarrow>
   2 * length (t @ rest) < fuel \<Longrightarrow> parseValue fuel (t @ rest) = Some (v, rest)"
proof (induction v arbitrary: t rest fuel)
  case JUndefined
  then show ?case by simp
next
  case JNull
  then obtain n where "fuel = Suc n" by (cases fuel) auto
  with JNull show ?case
    by (auto simp: skipWhiteSpace_Cons jsonWhiteSpace_def)
next
  case (JBool b)
  then obtain n where "fuel = Suc n" by (cases fuel) auto
  with JBool show ?case
    by (cases b) (auto simp: skipWhiteSpace_Cons jsonWhiteSpace_def)
next
  case (JNum x)
  then obtain n where fuel: "fuel = Suc n" by (cases fuel) auto
  from JNum have p: "parseNumber (numStr x) = Some (x, [])" and nv: "numberValue x = JNum x"
    and t: "t = numStr x"
    by (simp_all add: printable_def)
  from parseNumber_first [OF p] obtain c cs where c: "numStr x = c # cs" "c = CHR ''-'' \<or> isDigit c"
    by auto
  from parseNumber_append [OF JNum.prems(3) p]
  have "parseNumber (c # cs @ rest) = Some (x, rest)" by (simp add: c)
  with c(1) fuel t nv number_start [OF c(2)] show ?case
    by (simp add: skipWhiteSpace_Cons)
next
  case JNaN
  then show ?case by simp
next
  case JInfinity
  then show ?case by simp
next
  case JNegInfinity
  then show ?case by simp
next
  case (JStr str)
  then obtain n where "fuel = Suc n" by (cases fuel) auto
  with JStr show ?case
    by (auto simp: skipWhiteSpace_Cons jsonWhiteSpace_def QuoteJSONString_def parseChars_quoted
          simp del: parseChars.simps)
next
  case (JArr vs)
  from JArr.prems obtain n where fuel: "fuel = Suc n" by (cases fuel) auto
  show ?case
  proof (cases vs)
    case Nil
    with JArr.prems fuel show ?thesis
      by (auto simp: skipWhiteSpace_Cons jsonWhiteSpace_def)
  next
    case (Cons u us)
    let ?body = "join '','' (map (\<lambda>v. case SerializeJSONProperty numStr v of
                                          None \<Rightarrow> ''null'' | Some t \<Rightarrow> t) vs) @ CHR '']'' # rest"
    from JArr.prems(1) Cons serialize_starts [of numStr u] obtain c tu where
      u: "SerializeJSONProperty numStr u = Some (c # tu)" "startsValue c" by auto
    have first: "\<exists>r. ?body = c # r"
      using Cons u by (cases us) simp_all
    have elems: "parseElements n ?body = Some (vs, rest)"
    proof (rule parseElements_join)
      fix v t rest fuel
      assume "v \<in> set vs" "SerializeJSONProperty numStr v = Some t" "follows rest"
        "2 * length (t @ rest) < fuel"
      with JArr.IH [of v t rest fuel] JArr.prems(1)
      show "parseValue fuel (t @ rest) = Some (v, rest)" by simp
    next
      from JArr.prems(1) show "\<forall>v \<in> set vs. representable numStr v" by simp
    next
      from Cons show "vs \<noteq> []" by simp
    next
      from JArr.prems(2) have "t = CHR ''['' # join '','' (map (\<lambda>v. case SerializeJSONProperty numStr v of
                                          None \<Rightarrow> ''null'' | Some t \<Rightarrow> t) vs) @ '']''"
        by simp
      with JArr.prems(4) fuel show "2 * length ?body + 1 < n" by simp
    qed
    from first obtain r where r: "?body = c # r" by blast
    from JArr.prems(2) have t: "t @ rest = CHR ''['' # ?body" by simp
    show ?thesis
      unfolding t fuel
      using elems u(2) r startsValue_not_space [OF u(2)] startsValue_not_close [OF u(2)]
      by (simp add: skipWhiteSpace_Cons jsonWhiteSpace_def)
  qed
next
  case (JObj props)
  from JObj.prems obtain n where fuel: "fuel = Suc n" by (cases fuel) auto
  from JObj.prems(1) have rep: "\<forall>kv \<in> set props. representable numStr (snd kv)"
    and dist: "distinct (map fst props)" by simp_all
  show ?case
  proof (cases props)
    case Nil
    with JObj.prems fuel show ?thesis
      by (auto simp: skipWhiteSpace_Cons jsonWhiteSpace_def)
  next
    case (Cons kv kvs)
    let ?body = "join '','' (map (\<lambda>kv. QuoteJSONString (fst kv) @ '':''
                                          @ the (SerializeJSONProperty numStr (snd kv))) props)
                 @ CHR ''}'' # rest"
    have first: "\<exists>r. ?body = CHR 0x22 # r"
      using Cons by (cases kvs) (simp_all add: QuoteJSONString_def)
    have members: "parseMembers n ?body = Some (props, rest)"
    proof (rule parseMembers_join)
      fix kv t rest fuel
      assume "kv \<in> set props" "SerializeJSONProperty numStr (snd kv) = Some t" "follows rest"
        "2 * length (t @ rest) < fuel"
      with JObj.IH [of kv "snd kv" t rest fuel] rep
      show "parseValue fuel (t @ rest) = Some (snd kv, rest)"
        by (cases kv) auto
    next
      from rep show "\<forall>kv \<in> set props. representable numStr (snd kv)" .
    next
      from Cons show "props \<noteq> []" by simp
    next
      from JObj.prems(2) rep
      have "t = CHR ''{'' # join '','' (map (\<lambda>kv. QuoteJSONString (fst kv) @ '':''
                                          @ the (SerializeJSONProperty numStr (snd kv))) props) @ ''}''"
        by (simp add: members_text)
      with JObj.prems(4) fuel show "2 * length ?body + 1 < n" by simp
    qed
    from first obtain r where r: "?body = CHR 0x22 # r" by blast
    from JObj.prems(2) rep have t: "t @ rest = CHR ''{'' # ?body"
      by (simp add: members_text)
    from dist have "foldl (\<lambda>props kv. assign (fst kv) (snd kv) props) [] props = props"
      using foldl_assign_distinct [of "[]" props] by simp
    then show ?thesis
      unfolding t fuel
      using members r
      by (simp add: skipWhiteSpace_Cons jsonWhiteSpace_def)
  qed
qed

lemma JSON_roundtrip:
  "representable numStr v \<Longrightarrow> \<exists>t. JSON_stringify numStr v = Some t \<and> JSON_parse t = Some v"
proof -
  assume rep: "representable numStr v"
  from serialize_starts [OF rep] obtain t where t: "SerializeJSONProperty numStr v = Some t" by auto
  from parseValue_serialize [OF rep t, of "[]" "2 * length t + 1"]
  have "parseValue (2 * length t + 1) t = Some (v, [])"
    by (simp add: follows_def)
  with t show ?thesis
    by (simp add: JSON_stringify_def JSON_parse_def skipWhiteSpace_def)
qed


subsection \<open>The range of doubles\<close>

lemma above_factor: "(1::real) \<le> a \<Longrightarrow> c < b - 1 \<Longrightarrow> 0 \<le> c \<Longrightarrow> c < a * b - a"
proof -
  assume a: "1 \<le> a" and c: "c < b - 1" "0 \<le> c"
  then have "1 * (b - 1) \<le> a * (b - 1)"
    by (intro mult_right_mono) simp_all
  with c show ?thesis by (simp add: algebra_simps)
qed

lemma below_bound: "(x::real) \<le> y \<Longrightarrow> 0 \<le> z \<Longrightarrow> x - z \<le> y"
  by simp

lemma overflowBound_large: "10 ^ 15 < overflowBound"
  unfolding overflowBound_def
proof -
  have "(970::nat) + 54 = 1024" by simp
  then have split: "(2::real) ^ 1024 = 2 ^ 970 * 2 ^ 54"
    by (simp only: power_add [symmetric])
  have "(1::real) \<le> 2 ^ 970"
    by (rule one_le_power) simp
  moreover have "(10::real) ^ 15 < 2 ^ 54 - 1"
    by simp
  moreover have "(0::real) \<le> 10 ^ 15"
    by (rule zero_le_power) simp
  ultimately have "(10::real) ^ 15 < 2 ^ 970 * 2 ^ 54 - 2 ^ 970"
    by (rule above_factor)
  then show "(10::real) ^ 15 < 2 ^ 1024 - 2 ^ 970"
    by (simp only: split)
qed

lemma overflowBound_small: "overflowBound \<le> 10 ^ 400"
  unfolding overflowBound_def
proof -
  have "(3::nat) * 400 = 1200" by simp
  then have cube: "(2::real) ^ 1200 = (2 ^ 3) ^ 400"
    by (simp only: power_mult [symmetric])
  have "(2::real) ^ 1024 \<le> 2 ^ 1200"
    by (rule power_increasing) simp_all
  also have "((2::real) ^ 3) ^ 400 \<le> 10 ^ 400"
    by (rule power_mono) simp_all
  with cube have "(2::real) ^ 1200 \<le> 10 ^ 400"
    by (simp only:)
  finally have "(2::real) ^ 1024 \<le> 10 ^ 400" .
  moreover have "(0::real) \<le> 2 ^ 970"
    by (rule zero_le_power) simp
  ultimately show "(2::real) ^ 1024 - 2 ^ 970 \<le> 10 ^ 400"
    by (rule below_bound)
qed

lemma numberValue_finite: "\<bar>x\<bar> < 10 ^ 15 \<Longrightarrow> numberValue x = JNum x"
  using overflowBound_large by (auto simp: numberValue_def)

lemma scale_overflow: "scale 1 400 = 10 ^ 400"
  by (simp only: scale_def zero_le_numeral if_True nat_numeral mult_1)

lemma parse_overflow: "JSON_parse ''1e400'' = Some JInfinity"
proof -
  have "parseNumber ''1e400'' = Some (scale 1 400, [])"
    by (simp add: parseNumber_def parseFraction_def parseExponent_def isDigit_def digitsValue_def
          Let_def)
  moreover have "numberValue (scale 1 400) = JInfinity"
    using overflowBound_small by (simp only: scale_overflow numberValue_def if_True)
  ultimately show ?thesis
    by (simp add: JSON_parse_def eval_nat_numeral skipWhiteSpace_def jsonWhiteSpace_def)
qed

section \<open>Dwell time\<close>

text \<open>
  With a single region, and on the \<^verbatim>\<open>time\<close> property, the loop computes the total of
  the specification, and the total does not decrease when a point is added.
\<close>

lemma dwellLoop_single_region:
  "prefix (trim (innerText el)) key \<Longrightarrow> key \<noteq> [] \<Longrightarrow>
   dwellLoop [el] points [(key, v)] = [(key, v + dwellSum el points)]"
proof (induction el points arbitrary: v rule: dwellSum.induct)
  case (1 el earlier later rest)
  then show ?case
    by (simp add: addDwell_def Let_def split: option.splits)
qed simp_all

lemma calculateDwellTimeOnAOIs_single_region:
  "calculateDwellTimeOnAOIs [el] random points
   = [(trim (innerText el) @ ''_'' @ random 0, dwellSum el points)]"
proof (cases "length points < 2")
  case True
  then have "dwellSum el points = 0"
    by (cases points; cases "tl points") auto
  with True show ?thesis by (simp add: calculateDwellTimeOnAOIs_def)
next
  case False
  have "dwellLoop [el] points [(trim (innerText el) @ ''_'' @ random 0, 0)]
        = [(trim (innerText el) @ ''_'' @ random 0, 0 + dwellSum el points)]"
    by (rule dwellLoop_single_region) simp_all
  with False show ?thesis
    by (simp add: calculateDwellTimeOnAOIs_def)
qed

lemma dwellSum_grows: "dwellSum el points \<le> dwellSum el (points @ [p])"
  by (induction el points rule: dwellSum.induct) (auto split: option.splits)

lemma addDwell_without_time:
  "time currentGaze = None \<or> time nextGaze = None \<Longrightarrow>
   addDwell currentGaze nextGaze el dwellTimes = dwellTimes"
  by (auto simp: addDwell_def Let_def split: option.splits)

lemma fold_addDwell_without_time:
  "time currentGaze = None \<or> time nextGaze = None \<Longrightarrow>
   fold (addDwell currentGaze nextGaze) els dwellTimes = dwellTimes"
  by (induction els) (simp_all add: addDwell_without_time)

lemma dwellLoop_without_time:
  "\<forall>p \<in> set points. time p = None \<Longrightarrow> dwellLoop els points dwellTimes = dwellTimes"
  by (induction els points dwellTimes rule: dwellLoop.induct)
     (simp_all add: fold_addDwell_without_time)

text \<open>
  Whatever the regions and the rectangles, a sequence of points none of which has a numeric
  \<^verbatim>\<open>time\<close> property leaves the mapping as the first loop built it, every total zero.
  The points the gaze listener records are such points.
\<close>

lemma calculateDwellTimeOnAOIs_without_time:
  "\<forall>p \<in> set points. time p = None \<Longrightarrow>
   calculateDwellTimeOnAOIs els random points = initDwellTimes random 0 els []"
  by (simp add: calculateDwellTimeOnAOIs_def dwellLoop_without_time Let_def)

lemma time_gazeListener:
  "\<forall>p \<in> set (gazeData s). time p = None \<Longrightarrow>
   \<forall>p \<in> set (gazeData (gazeListener sample elapsed now path s)). time p = None"
  by (auto simp: gazeData_gazeListener split: option.splits)

text \<open>
  Claim C1. The dwell time of a region is the sum of the inter-sample deltas of the
  consecutive pairs whose earlier point is inside the region, so for points recorded by the
  gaze listener with deltas below 500 ms it is the sum of those deltas. The code computes
  the delta from the property \<^verbatim>\<open>time\<close>, which the listener's points do not have (they
  carry \<^verbatim>\<open>timestamp\<close> and \<^verbatim>\<open>elapsedTime\<close>). On the scenario of the specification,
  three listener samples at (10,10), (15,15), (1000,1000) with times 0, 100, 2000 and one
  region covering (0,0)-(20,20), the first two points are inside the region and their delta
  is 100 ms, but the region's total is 0.
\<close>

theorem listener_points_have_zero_dwell:
  "calculateDwellTimeOnAOIs
     [\<lparr> innerText = ''because'',
        boundingClientRect = \<lparr> rect_left = 0, rect_right = 20, rect_top = 0, rect_bottom = 20 \<rparr> \<rparr>]
     (\<lambda>i. ''k3x9q'')
     (gazeData (gazeListener (Some (1000, 1000)) 2000 2000 ''/abstract1.html''
                 (gazeListener (Some (15, 15)) 100 100 ''/abstract1.html''
                   (gazeListener (Some (10, 10)) 0 0 ''/abstract1.html''
                     (constructor (\<lambda>key. None))))))
   = [(''because_k3x9q'', 0)]"
  by (simp add: calculateDwellTimeOnAOIs_def gazeListener_def constructor_def triggerEvent_def
        trim_def whiteSpace_def addDwell_def isGazeOnElement_def)

text \<open>
  Claim C2. Each marked region has its own key in the mapping, and its dwell time goes to
  that key. The keys are distinct (label, underscore, random suffix), but the second loop
  finds the key of a region as the first key that starts with the region's label. With two
  regions labelled \<^verbatim>\<open>because\<close>, and points with numeric \<^verbatim>\<open>time\<close> 0 and 100 that lie
  in the second region only, the 100 ms are added to the key of the first region and the
  key of the second region stays at 0.
\<close>

theorem dwell_of_second_region_goes_to_first_key:
  "calculateDwellTimeOnAOIs
     [\<lparr> innerText = ''because'',
        boundingClientRect = \<lparr> rect_left = 0, rect_right = 20, rect_top = 0, rect_bottom = 20 \<rparr> \<rparr>,
      \<lparr> innerText = ''because'',
        boundingClientRect = \<lparr> rect_left = 100, rect_right = 120, rect_top = 0, rect_bottom = 20 \<rparr> \<rparr>]
     (\<lambda>i. if i = 0 then ''aaaaa'' else ''bbbbb'')
     [\<lparr> gaze_x = 110, gaze_y = 10, timestamp = 0, elapsedTime = 0, page = ''/abstract1.html'',
        time = Some 0 \<rparr>,
      \<lparr> gaze_x = 110, gaze_y = 10, timestamp = 100, elapsedTime = 100, page = ''/abstract1.html'',
        time = Some 100 \<rparr>]
   = [(''because_aaaaa'', 100), (''because_bbbbb'', 0)]"
  by (simp add: calculateDwellTimeOnAOIs_def trim_def whiteSpace_def addDwell_def
        isGazeOnElement_def)


section \<open>Session state store\<close>

text \<open>
  Claim C3 as stated: any partial or corrupted persisted state, an unparsable serialized
  record included, makes \<^verbatim>\<open>loadCalibrationState\<close> return false without raising. With
  the flag \<^verbatim>\<open>'true'\<close>, a timestamp, and the serialized record \<^verbatim>\<open>{\<close>, which
  \<^verbatim>\<open>JSON.parse\<close> rejects, the call does not return false: nothing catches the
  \<^verbatim>\<open>SyntaxError\<close>.
\<close>

theorem loadCalibrationState_unparsable_raises:
  "fst (loadCalibrationState (\<lambda>text. None)
         (constructor [''eyeTrackingCalibrated'' \<mapsto> ''true'',
                       ''calibrationTimestamp'' \<mapsto> ''1700000000000'',
                       ''calibrationData'' \<mapsto> ''{''])) = Inl SyntaxError
   \<and> fst (loadCalibrationState (\<lambda>text. None)
         (constructor [''eyeTrackingCalibrated'' \<mapsto> ''true'',
                       ''calibrationTimestamp'' \<mapsto> ''1700000000000'',
                       ''calibrationData'' \<mapsto> ''{''])) \<noteq> Inr False"
  by (simp add: loadCalibrationState_def constructor_def getItem_def)

text \<open>
  Claim C3, amended. \<^verbatim>\<open>loadCalibrationState\<close> returns true only when the flag is the
  string \<^verbatim>\<open>'true'\<close>, the timestamp and the serialized record are present and not empty,
  and the record parses; the in-memory record is then the parsed value. When the flag is
  not \<^verbatim>\<open>'true'\<close>, or the timestamp or the serialized record is missing or empty, it
  returns false, raises nothing and leaves the tracker as it was. When the three keys pass
  and the serialized record does not parse, the \<^verbatim>\<open>SyntaxError\<close> of \<^verbatim>\<open>JSON.parse\<close>
  reaches the caller, and the tracker is as it was.
\<close>

theorem loadCalibrationState_cases:
  "(fst (loadCalibrationState parse s) = Inr True \<longrightarrow>
      getItem ''eyeTrackingCalibrated'' s = Some ''true''
      \<and> getItem ''calibrationTimestamp'' s \<notin> {None, Some []}
      \<and> getItem ''calibrationData'' s \<notin> {None, Some []}
      \<and> Some (calibrationData (snd (loadCalibrationState parse s)))
          = parse (the (getItem ''calibrationData'' s)))
   \<and> (getItem ''eyeTrackingCalibrated'' s \<noteq> Some ''true''
        \<or> getItem ''calibrationTimestamp'' s \<in> {None, Some []}
        \<or> getItem ''calibrationData'' s \<in> {None, Some []} \<longrightarrow>
      loadCalibrationState parse s = (Inr False, s))
   \<and> (getItem ''eyeTrackingCalibrated'' s = Some ''true''
        \<and> getItem ''calibrationTimestamp'' s \<notin> {None, Some []}
        \<and> getItem ''calibrationData'' s \<notin> {None, Some []} \<longrightarrow>
      loadCalibrationState parse s =
        (case parse (the (getItem ''calibrationData'' s)) of
           Some v \<Rightarrow> (Inr True, s\<lparr> calibrationData := v \<rparr>)
         | None \<Rightarrow> (Inl SyntaxError, s)))"
  by (auto simp: loadCalibrationState_def Let_def split: option.splits)

text \<open>
  The three cases at concrete stores: a complete store whose record parses (to an empty
  object), a store without the timestamp, and a complete store whose record does not parse.
\<close>

theorem loadCalibrationState_cases_witness:
  "loadCalibrationState
     (\<lambda>text. if text = ''{}'' then Some (JObj []) else None)
     (constructor [''eyeTrackingCalibrated'' \<mapsto> ''true'',
                   ''calibrationTimestamp'' \<mapsto> ''1700000000000'',
                   ''calibrationData'' \<mapsto> ''{}''])
   = (Inr True,
      (constructor [''eyeTrackingCalibrated'' \<mapsto> ''true'',
                    ''calibrationTimestamp'' \<mapsto> ''1700000000000'',
                    ''calibrationData'' \<mapsto> ''{}''])
        \<lparr> calibrationData := JObj [] \<rparr>)
   \<and> loadCalibrationState (\<lambda>text. None)
       (constructor [''eyeTrackingCalibrated'' \<mapsto> ''true'',
                     ''calibrationData'' \<mapsto> ''{}''])
     = (Inr False,
        constructor [''eyeTrackingCalibrated'' \<mapsto> ''true'',
                     ''calibrationData'' \<mapsto> ''{}''])
   \<and> loadCalibrationState (\<lambda>text. None)
       (constructor [''eyeTrackingCalibrated'' \<mapsto> ''true'',
                     ''calibrationTimestamp'' \<mapsto> ''1700000000000'',
                     ''calibrationData'' \<mapsto> ''{''])
     = (Inl SyntaxError,
        constructor [''eyeTrackingCalibrated'' \<mapsto> ''true'',
                     ''calibrationTimestamp'' \<mapsto> ''1700000000000'',
                     ''calibrationData'' \<mapsto> ''{''])"
proof -
  let ?parse = "\<lambda>text. if text = ''{}''
                       then Some (JObj []) else None"
  let ?full = "constructor [''eyeTrackingCalibrated'' \<mapsto> ''true'',
                            ''calibrationTimestamp'' \<mapsto> ''1700000000000'',
                            ''calibrationData'' \<mapsto> ''{}'']"
  let ?partial = "constructor [''eyeTrackingCalibrated'' \<mapsto> ''true'',
                               ''calibrationData'' \<mapsto> ''{}'']"
  let ?broken = "constructor [''eyeTrackingCalibrated'' \<mapsto> ''true'',
                              ''calibrationTimestamp'' \<mapsto> ''1700000000000'',
                              ''calibrationData'' \<mapsto> ''{'']"
  have full: "getItem ''eyeTrackingCalibrated'' ?full = Some ''true''
              \<and> getItem ''calibrationTimestamp'' ?full \<notin> {None, Some []}
              \<and> getItem ''calibrationData'' ?full \<notin> {None, Some []}"
    by (simp add: getItem_def constructor_def)
  have partial: "getItem ''calibrationTimestamp'' ?partial \<in> {None, Some []}"
    by (simp add: getItem_def constructor_def)
  have broken: "getItem ''eyeTrackingCalibrated'' ?broken = Some ''true''
                \<and> getItem ''calibrationTimestamp'' ?broken \<notin> {None, Some []}
                \<and> getItem ''calibrationData'' ?broken \<notin> {None, Some []}"
    by (simp add: getItem_def constructor_def)
  from loadCalibrationState_cases [of ?parse ?full] full
  have 1: "loadCalibrationState ?parse ?full
           = (Inr True, ?full\<lparr> calibrationData := JObj [] \<rparr>)"
    by (simp add: getItem_def constructor_def)
  from loadCalibrationState_cases [of "\<lambda>text. None" ?partial] partial
  have 2: "loadCalibrationState (\<lambda>text. None) ?partial = (Inr False, ?partial)"
    by blast
  from loadCalibrationState_cases [of "\<lambda>text. None" ?broken] broken
  have 3: "loadCalibrationState (\<lambda>text. None) ?broken = (Inl SyntaxError, ?broken)"
    by simp
  from 1 2 3 show ?thesis by blast
qed

text \<open>
  Claim C4 as stated: every combination other than a completed record together with the
  persisted flag yields false. A tracker that has no calibration record, as the constructor
  leaves it, yields \<^verbatim>\<open>null\<close>, the first operand of the \<^verbatim>\<open>&&\<close> chain, and not
  \<^verbatim>\<open>false\<close>.
\<close>

theorem isCalibrated_without_record_is_null:
  "isCalibrated (constructor [''eyeTrackingCalibrated'' \<mapsto> ''true'']) = JNull
   \<and> isCalibrated (constructor [''eyeTrackingCalibrated'' \<mapsto> ''true'']) \<noteq> JBool False"
  by (simp add: isCalibrated_def constructor_def)

text \<open>
  Claim C4, amended. \<^verbatim>\<open>isCalibrated()\<close> returns true if and only if the in-memory
  calibration record exists, its completed flag is true (both as a JavaScript condition
  tests them) and the persisted flag is the string \<^verbatim>\<open>'true'\<close>. Every other combination
  yields a value that is not truthy: \<^verbatim>\<open>null\<close> when there is no record, and false when
  the record has a boolean completed flag.
\<close>

theorem isCalibrated_true_iff:
  "(isCalibrated s = JBool True \<longleftrightarrow>
      truthy (calibrationData s) \<and> truthy (getProp (calibrationData s) ''completed'')
      \<and> getItem ''eyeTrackingCalibrated'' s = Some ''true'')
   \<and> (isCalibrated s \<noteq> JBool True \<longrightarrow> \<not> truthy (isCalibrated s))
   \<and> (calibrationData s = JNull \<longrightarrow> isCalibrated s = JNull)
   \<and> (truthy (calibrationData s) \<and> getProp (calibrationData s) ''completed'' = JBool b \<longrightarrow>
        isCalibrated s = JBool (b \<and> getItem ''eyeTrackingCalibrated'' s = Some ''true''))"
  by (cases "getProp (calibrationData s) ''completed''"; cases "calibrationData s")
     (auto simp: isCalibrated_def)

text \<open>A completed record with the persisted flag; a completed record without it; no
  record.\<close>

theorem isCalibrated_true_iff_witness:
  "isCalibrated ((constructor [''eyeTrackingCalibrated'' \<mapsto> ''true''])
                   \<lparr> calibrationData := JObj [(''completed'', JBool True)] \<rparr>) = JBool True
   \<and> isCalibrated ((constructor (\<lambda>key. None))
                   \<lparr> calibrationData := JObj [(''completed'', JBool True)] \<rparr>) = JBool False
   \<and> isCalibrated (constructor [''eyeTrackingCalibrated'' \<mapsto> ''true'']) = JNull"
proof -
  let ?flagged = "(constructor [''eyeTrackingCalibrated'' \<mapsto> ''true''])
                    \<lparr> calibrationData := JObj [(''completed'', JBool True)] \<rparr>"
  let ?unflagged = "(constructor (\<lambda>key. None))
                      \<lparr> calibrationData := JObj [(''completed'', JBool True)] \<rparr>"
  let ?fresh = "constructor [''eyeTrackingCalibrated'' \<mapsto> ''true'']"
  have a: "truthy (calibrationData ?flagged) \<and> truthy (getProp (calibrationData ?flagged) ''completed'')
           \<and> getItem ''eyeTrackingCalibrated'' ?flagged = Some ''true''"
    by (simp add: getItem_def constructor_def)
  have b: "truthy (calibrationData ?unflagged)
           \<and> getProp (calibrationData ?unflagged) ''completed'' = JBool True
           \<and> getItem ''eyeTrackingCalibrated'' ?unflagged \<noteq> Some ''true''"
    by (simp add: getItem_def constructor_def)
  have c: "calibrationData ?fresh = JNull"
    by (simp add: constructor_def)
  from isCalibrated_true_iff [of ?flagged] a have 1: "isCalibrated ?flagged = JBool True"
    by blast
  from isCalibrated_true_iff [of ?unflagged True] b have 2: "isCalibrated ?unflagged = JBool False"
    by simp
  from isCalibrated_true_iff [of ?fresh] c have 3: "isCalibrated ?fresh = JNull"
    by blast
  from 1 2 3 show ?thesis by blast
qed

text \<open>
  Claim C8 as stated: the session store is written only when the in-memory record has
  completed = true. A persisted record whose \<^verbatim>\<open>completed\<close> is the string
  \<^verbatim>\<open>'false'\<close> (the text that \<^verbatim>\<open>JSON.stringify\<close> gives for
  \<^verbatim>\<open>{completed: 'false', timestamp: 5}\<close>) is restored by \<^verbatim>\<open>loadCalibrationState\<close>;
  the string is truthy, so \<^verbatim>\<open>saveCalibrationState\<close> persists the record: the stored
  timestamp \<^verbatim>\<open>'1'\<close> becomes \<^verbatim>\<open>'5'\<close>.
\<close>

theorem saveCalibrationState_persists_truthy_flag:
  "getProp (calibrationData (snd (loadCalibrationState JSON_parse
       (constructor [''eyeTrackingCalibrated'' \<mapsto> ''true'', ''calibrationTimestamp'' \<mapsto> ''1'',
          ''calibrationData'' \<mapsto>
             the (JSON_stringify (\<lambda>x. ''5'')
                    (JObj [(''completed'', JStr ''false''), (''timestamp'', JNum 5)]))]))))
     ''completed'' = JStr ''false''
   \<and> sessionStorage (snd (loadCalibrationState JSON_parse
       (constructor [''eyeTrackingCalibrated'' \<mapsto> ''true'', ''calibrationTimestamp'' \<mapsto> ''1'',
          ''calibrationData'' \<mapsto>
             the (JSON_stringify (\<lambda>x. ''5'')
                    (JObj [(''completed'', JStr ''false''), (''timestamp'', JNum 5)]))])))
       ''calibrationTimestamp'' = Some ''1''
   \<and> sessionStorage (snd (saveCalibrationState (\<lambda>v. Inr ''5'')
          (\<lambda>v. the (JSON_stringify (\<lambda>x. ''5'') v))
          (snd (loadCalibrationState JSON_parse
            (constructor [''eyeTrackingCalibrated'' \<mapsto> ''true'', ''calibrationTimestamp'' \<mapsto> ''1'',
               ''calibrationData'' \<mapsto>
                  the (JSON_stringify (\<lambda>x. ''5'')
                         (JObj [(''completed'', JStr ''false''), (''timestamp'', JNum 5)]))])))))
       ''calibrationTimestamp'' = Some ''5''"
proof -
  let ?stored = "JObj [(''completed'', JStr ''false''), (''timestamp'', JNum 5)]"
  let ?text = "the (JSON_stringify (\<lambda>x. ''5'') ?stored)"
  let ?store = "[''eyeTrackingCalibrated'' \<mapsto> ''true'', ''calibrationTimestamp'' \<mapsto> ''1'',
                 ''calibrationData'' \<mapsto> ?text]"
  have "printable (\<lambda>x. ''5'') 5"
    by (simp add: printable_def numberValue_finite parseNumber_def parseFraction_def
          parseExponent_def isDigit_def digitsValue_def scale_def Let_def)
  then have "representable (\<lambda>x. ''5'') ?stored" by simp
  from JSON_roundtrip [OF this] have parse: "JSON_parse ?text = Some ?stored" by auto
  have nonempty: "?text \<noteq> []"
    by (simp add: JSON_stringify_def)
  have load: "snd (loadCalibrationState JSON_parse (constructor ?store))
              = (constructor ?store) \<lparr> calibrationData := ?stored \<rparr>"
    using parse nonempty
    by (simp add: loadCalibrationState_def getItem_def constructor_def)
  show ?thesis
    unfolding load
    by (simp add: saveCalibrationState_def setItem_def toString_def constructor_def Let_def)
qed

text \<open>
  Claim C8, amended. \<^verbatim>\<open>saveCalibrationState\<close> writes to the session store only when an
  in-memory calibration record exists and its \<^verbatim>\<open>completed\<close> property is truthy; when
  \<^verbatim>\<open>completed\<close> is a boolean, as in every record built by \<^verbatim>\<open>calibrate\<close>, that is
  completed = true. When the record is absent or its \<^verbatim>\<open>completed\<close> is not
  truthy, the call writes nothing, raises nothing and leaves every key of the store, and
  the rest of the tracker, unchanged. The only keys it ever changes are the flag, the
  timestamp and the serialized record, and when the record passes the test and its
  timestamp converts to a string, the three are written.
\<close>

theorem saveCalibrationState_frame:
  "(\<not> (truthy (calibrationData s) \<and> truthy (getProp (calibrationData s) ''completed'')) \<longrightarrow>
      saveCalibrationState toStr stringify s = (Inr (), s))
   \<and> (sessionStorage (snd (saveCalibrationState toStr stringify s)) key \<noteq> sessionStorage s key \<longrightarrow>
        truthy (calibrationData s) \<and> truthy (getProp (calibrationData s) ''completed'')
        \<and> key \<in> {''eyeTrackingCalibrated'', ''calibrationTimestamp'', ''calibrationData''})
   \<and> (getProp (calibrationData s) ''completed'' = JBool b
        \<and> sessionStorage (snd (saveCalibrationState toStr stringify s)) key \<noteq> sessionStorage s key \<longrightarrow>
        b)
   \<and> (truthy (calibrationData s) \<and> truthy (getProp (calibrationData s) ''completed'')
        \<and> toString toStr (getProp (calibrationData s) ''timestamp'') = Inr ts \<longrightarrow>
        saveCalibrationState toStr stringify s =
          (Inr (), s\<lparr> sessionStorage := (sessionStorage s)
                     (''eyeTrackingCalibrated'' \<mapsto> ''true'',
                      ''calibrationTimestamp'' \<mapsto> ts,
                      ''calibrationData'' \<mapsto> stringify (calibrationData s)) \<rparr>))"
  by (auto simp: saveCalibrationState_def setItem_def Let_def split: sum.splits if_splits)

text \<open>A record that calibration has started but not completed is not persisted; a
  completed one is, under the three keys.\<close>

theorem saveCalibrationState_frame_witness:
  "saveCalibrationState (\<lambda>v. Inr ''1700000000000'') (\<lambda>v. ''{}'')
     ((constructor (\<lambda>key. None))
        \<lparr> calibrationData := JObj [(''timestamp'', JNum 1700000000000), (''completed'', JBool False)] \<rparr>)
   = (Inr (),
      (constructor (\<lambda>key. None))
        \<lparr> calibrationData := JObj [(''timestamp'', JNum 1700000000000), (''completed'', JBool False)] \<rparr>)
   \<and> sessionStorage (snd (saveCalibrationState (\<lambda>v. Inr ''1700000000000'') (\<lambda>v. ''{}'')
        ((constructor (\<lambda>key. None))
           \<lparr> calibrationData := JObj [(''timestamp'', JNum 1700000000000), (''completed'', JBool True)] \<rparr>)))
     = [''eyeTrackingCalibrated'' \<mapsto> ''true'',
        ''calibrationTimestamp'' \<mapsto> ''1700000000000'',
        ''calibrationData'' \<mapsto> ''{}'']"
proof -
  let ?started = "(constructor (\<lambda>key. None))
        \<lparr> calibrationData := JObj [(''timestamp'', JNum 1700000000000), (''completed'', JBool False)] \<rparr>"
  let ?completed = "(constructor (\<lambda>key. None))
        \<lparr> calibrationData := JObj [(''timestamp'', JNum 1700000000000), (''completed'', JBool True)] \<rparr>"
  have a: "\<not> (truthy (calibrationData ?started) \<and> truthy (getProp (calibrationData ?started) ''completed''))"
    by simp
  have b: "truthy (calibrationData ?completed) \<and> truthy (getProp (calibrationData ?completed) ''completed'')
           \<and> toString (\<lambda>v. Inr ''1700000000000'') (getProp (calibrationData ?completed) ''timestamp'')
               = Inr ''1700000000000''"
    by (simp add: toString_def)
  from saveCalibrationState_frame [of ?started "\<lambda>v. Inr ''1700000000000''" "\<lambda>v. ''{}''"] a
  have 1: "saveCalibrationState (\<lambda>v. Inr ''1700000000000'') (\<lambda>v. ''{}'') ?started = (Inr (), ?started)"
    by blast
  from saveCalibrationState_frame
         [of ?completed "\<lambda>v. Inr ''1700000000000''" "\<lambda>v. ''{}''" _ _ "''1700000000000''"] b
  have 2: "sessionStorage (snd (saveCalibrationState (\<lambda>v. Inr ''1700000000000'') (\<lambda>v. ''{}'') ?completed))
           = [''eyeTrackingCalibrated'' \<mapsto> ''true'',
              ''calibrationTimestamp'' \<mapsto> ''1700000000000'',
              ''calibrationData'' \<mapsto> ''{}'']"
    by (simp add: constructor_def)
  from 1 2 show ?thesis by blast
qed


section \<open>Calibration\<close>

text \<open>
  Claim C5. On an initialized adapter, \<^verbatim>\<open>calibrate\<close> with the single target
  \<^verbatim>\<open>{x: 50, y: 50}\<close> resolves with the stored calibration record, whose completed flag
  is true and whose positions are that one target; and \<^verbatim>\<open>calibrate\<close> without a
  positions argument resolves with a record whose positions are the default grid of nine
  targets. The engine raises no error: its calls are the trace, and no call of the model
  fails.
\<close>

theorem calibrate_single_target_and_default:
  "isInitialized s \<Longrightarrow>
     (let record = calibrationData (snd (calibrate now window (Some [\<lparr>pos_x = 50, pos_y = 50\<rparr>]) s))
      in fst (calibrate now window (Some [\<lparr>pos_x = 50, pos_y = 50\<rparr>]) s) = Inr record
         \<and> getProp record ''completed'' = JBool True
         \<and> getProp record ''positions'' = JArr [position_js \<lparr>pos_x = 50, pos_y = 50\<rparr>]
         \<and> length [position_js \<lparr>pos_x = 50, pos_y = 50\<rparr>] = 1)
   \<and> (let record = calibrationData (snd (calibrate now window None s))
      in fst (calibrate now window None s) = Inr record
         \<and> getProp record ''completed'' = JBool True
         \<and> getProp record ''positions'' = JArr (map position_js defaultPositions)
         \<and> length defaultPositions = 9)"
  using processNextPoint_result
  by (simp add: calibrate_def Let_def triggerEvent_def defaultPositions_def)

text \<open>The tracker after a successful \<^verbatim>\<open>init\<close>, calibrated at the single target at time
  1000 in a window of 1280 by 720.\<close>

theorem calibrate_single_target_and_default_witness:
  "isInitialized (snd (init \<lparr> regression = None, tracker = None, showVideo = None,
                             showPredictions = None \<rparr> None (constructor (\<lambda>key. None))))
   \<and> fst (calibrate 1000 (\<lambda>i. (1280, 720)) (Some [\<lparr>pos_x = 50, pos_y = 50\<rparr>])
            (snd (init \<lparr> regression = None, tracker = None, showVideo = None,
                         showPredictions = None \<rparr> None (constructor (\<lambda>key. None)))))
       = Inr (JObj [ (''positions'', JArr [JObj [(''x'', JNum 50), (''y'', JNum 50)]]),
                     (''timestamp'', JNum 1000),
                     (''completed'', JBool True) ])"
proof -
  let ?s = "snd (init \<lparr> regression = None, tracker = None, showVideo = None,
                       showPredictions = None \<rparr> None (constructor (\<lambda>key. None)))"
  have h: "isInitialized ?s"
    by (simp add: init_def triggerEvent_def constructor_def)
  have cd: "calibrationData (snd (calibrate 1000 (\<lambda>i. (1280, 720)) (Some [\<lparr>pos_x = 50, pos_y = 50\<rparr>]) ?s))
            = JObj [ (''positions'', JArr [JObj [(''x'', JNum 50), (''y'', JNum 50)]]),
                     (''timestamp'', JNum 1000),
                     (''completed'', JBool True) ]"
    apply (simp add: calibrate_def h Let_def triggerEvent_def position_js_def)
    apply (subst processNextPoint.simps)
    apply (simp add: Let_def triggerEvent_def collectPoint_trace)
    apply (subst processNextPoint.simps)
    apply (simp add: Let_def triggerEvent_def)
    done
  from calibrate_single_target_and_default [OF h, of 1000 "\<lambda>i. (1280, 720)"] h cd
  show ?thesis by (simp add: Let_def)
qed

text \<open>
  Claim C6. \<^verbatim>\<open>calibrate\<close> on an adapter that is not initialized fails with the error
  \<^verbatim>\<open>Eye tracking not initialized\<close>, and the failed call changes nothing: the calibration
  record is as it was, the engine has received no call and no listener has been called.
\<close>

theorem calibrate_not_initialized:
  "\<not> isInitialized s \<Longrightarrow>
   calibrate now window positions s = (Inl (Error ''Eye tracking not initialized''), s)"
  by (simp add: calibrate_def)

theorem calibrate_not_initialized_witness:
  "\<not> isInitialized (constructor (\<lambda>key. None))
   \<and> calibrate 1000 (\<lambda>i. (1280, 720)) None (constructor (\<lambda>key. None))
       = (Inl (Error ''Eye tracking not initialized''), constructor (\<lambda>key. None))"
proof -
  have h: "\<not> isInitialized (constructor (\<lambda>key. None))"
    by (simp add: constructor_def)
  from calibrate_not_initialized [OF h] h show ?thesis by simp
qed

text \<open>
  Claim C10. Every \<^verbatim>\<open>calibrate\<close> on an initialized adapter first tells the engine to
  discard its training samples: the calls the engine receives are \<^verbatim>\<open>clearData\<close> and
  then, for each target in order, the five \<^verbatim>\<open>recordScreenPosition\<close> calls of that target,
  and nothing else.
\<close>

theorem calibrate_clears_engine_first:
  "isInitialized s \<Longrightarrow>
   webgazer (snd (calibrate now window positions s)) =
     webgazer s @ ClearData #
       concat (map (targetCalls window (case positions of Some ps \<Rightarrow> ps | None \<Rightarrow> defaultPositions))
                [0 ..< length (case positions of Some ps \<Rightarrow> ps | None \<Rightarrow> defaultPositions)])"
  using processNextPoint_trace
  by (simp add: calibrate_def Let_def triggerEvent_def)

text \<open>A second calibration of two targets, on an engine that has the samples of an earlier
  one: the trace goes on with \<^verbatim>\<open>clearData\<close>, then five samples for each target.\<close>

theorem calibrate_clears_engine_first_witness:
  "isInitialized ((constructor (\<lambda>key. None))
                    \<lparr> isInitialized := True, webgazer := [Begin, RecordScreenPosition 64 36] \<rparr>)
   \<and> webgazer (snd (calibrate 1000 (\<lambda>i. (1280, 720))
                      (Some [\<lparr>pos_x = 10, pos_y = 10\<rparr>, \<lparr>pos_x = 50, pos_y = 50\<rparr>])
                      ((constructor (\<lambda>key. None))
                         \<lparr> isInitialized := True, webgazer := [Begin, RecordScreenPosition 64 36] \<rparr>)))
     = [Begin, RecordScreenPosition 64 36, ClearData]
       @ replicate 5 (RecordScreenPosition 128 72) @ replicate 5 (RecordScreenPosition 640 360)"
proof -
  let ?s = "(constructor (\<lambda>key. None))
              \<lparr> isInitialized := True, webgazer := [Begin, RecordScreenPosition 64 36] \<rparr>"
  have h: "isInitialized ?s" by simp
  have upt: "[0 ..< 2] = [0, Suc 0]" by (simp add: upt_conv_Cons)
  from calibrate_clears_engine_first [OF h, of 1000 "\<lambda>i. (1280, 720)"
         "Some [\<lparr>pos_x = 10, pos_y = 10\<rparr>, \<lparr>pos_x = 50, pos_y = 50\<rparr>]"] h
  show ?thesis by (simp add: targetCalls_def upt)
qed


section \<open>The gaze sequence is append-only\<close>

text \<open>
  Claim C7. Along any run of the tracker without \<^verbatim>\<open>clearData\<close> the gaze sequence only
  grows at its end: the sequence before the run is a prefix of the sequence after it, so
  no recorded point is changed or removed. \<^verbatim>\<open>stop\<close>, \<^verbatim>\<open>pause\<close> and \<^verbatim>\<open>resume\<close>
  leave the sequence as it is. \<^verbatim>\<open>clearData\<close> empties it. A second \<^verbatim>\<open>stop\<close> right
  after a \<^verbatim>\<open>stop\<close> changes nothing; and once a \<^verbatim>\<open>stop\<close> has taken effect, a later
  \<^verbatim>\<open>stop\<close> changes nothing whatever the engine then answers.
\<close>

theorem gazeData_append_only:
  "(trackerStep\<^sup>*\<^sup>* s s' \<longrightarrow> prefix (gazeData s) (gazeData s'))
   \<and> gazeData (stop isReady s) = gazeData s
   \<and> gazeData (pause s) = gazeData s
   \<and> gazeData (resume s) = gazeData s
   \<and> gazeData (clearData s) = []
   \<and> stop isReady (stop isReady s) = stop isReady s
   \<and> (isInitialized s \<and> isReady (webgazer s) \<longrightarrow>
        stop isReady' (stop isReady s) = stop isReady s)"
proof -
  have "stop isReady (stop isReady s) = stop isReady s"
    by (simp add: stop_def triggerEvent_def)
  moreover have "isInitialized s \<and> isReady (webgazer s) \<longrightarrow>
                 stop isReady' (stop isReady s) = stop isReady s"
    by (simp add: stop_def triggerEvent_def)
  moreover have "gazeData (clearData s) = []"
    by (simp add: clearData_def Let_def)
  ultimately show ?thesis
    by (simp add: trackerSteps_prefix gazeData_stop gazeData_pause gazeData_resume)
qed

text \<open>A run from a tracker that holds one point: the tracker is paused, resumed, a second
  sample arrives, and the tracker is stopped. The first point is still first, and a second
  \<^verbatim>\<open>stop\<close> changes nothing.\<close>

theorem gazeData_append_only_witness:
  "trackerStep\<^sup>*\<^sup>*
     (gazeListener (Some (10, 10)) 0 1000 ''/abstract1.html''
        (snd (init \<lparr> regression = None, tracker = None, showVideo = None,
                     showPredictions = None \<rparr> None (constructor (\<lambda>key. None)))))
     (stop (\<lambda>calls. True)
        (gazeListener (Some (15, 15)) 100 1100 ''/abstract1.html''
           (resume (pause
              (gazeListener (Some (10, 10)) 0 1000 ''/abstract1.html''
                 (snd (init \<lparr> regression = None, tracker = None, showVideo = None,
                              showPredictions = None \<rparr> None (constructor (\<lambda>key. None)))))))))
   \<and> prefix
       [\<lparr> gaze_x = 10, gaze_y = 10, timestamp = 1000, elapsedTime = 0,
          page = ''/abstract1.html'', time = None \<rparr>]
       (gazeData
          (stop (\<lambda>calls. True)
             (gazeListener (Some (15, 15)) 100 1100 ''/abstract1.html''
                (resume (pause
                   (gazeListener (Some (10, 10)) 0 1000 ''/abstract1.html''
                      (snd (init \<lparr> regression = None, tracker = None, showVideo = None,
                                   showPredictions = None \<rparr> None (constructor (\<lambda>key. None))))))))))
   \<and> stop (\<lambda>calls. False)
         (stop (\<lambda>calls. True)
            (gazeListener (Some (15, 15)) 100 1100 ''/abstract1.html''
               (resume (pause
                  (gazeListener (Some (10, 10)) 0 1000 ''/abstract1.html''
                     (snd (init \<lparr> regression = None, tracker = None, showVideo = None,
                                  showPredictions = None \<rparr> None (constructor (\<lambda>key. None)))))))))
       = stop (\<lambda>calls. True)
           (gazeListener (Some (15, 15)) 100 1100 ''/abstract1.html''
              (resume (pause
                 (gazeListener (Some (10, 10)) 0 1000 ''/abstract1.html''
                    (snd (init \<lparr> regression = None, tracker = None, showVideo = None,
                                 showPredictions = None \<rparr> None (constructor (\<lambda>key. None))))))))"
proof -
  let ?s1 = "gazeListener (Some (10, 10)) 0 1000 ''/abstract1.html''
               (snd (init \<lparr> regression = None, tracker = None, showVideo = None,
                            showPredictions = None \<rparr> None (constructor (\<lambda>key. None))))"
  let ?s2 = "pause ?s1"
  let ?s3 = "resume ?s2"
  let ?s4 = "gazeListener (Some (15, 15)) 100 1100 ''/abstract1.html'' ?s3"
  let ?s5 = "stop (\<lambda>calls. True) ?s4"
  have "trackerStep ?s1 ?s2" by (rule step_pause)
  moreover have "trackerStep ?s2 ?s3" by (rule step_resume)
  moreover have "trackerStep ?s3 ?s4" by (rule step_gaze)
  moreover have "trackerStep ?s4 ?s5" by (rule step_stop)
  ultimately have run: "trackerStep\<^sup>*\<^sup>* ?s1 ?s5"
    by (meson rtranclp.rtrancl_refl rtranclp.rtrancl_into_rtrancl)
  have start: "gazeData ?s1 = [\<lparr> gaze_x = 10, gaze_y = 10, timestamp = 1000, elapsedTime = 0,
                                 page = ''/abstract1.html'', time = None \<rparr>]"
    by (simp add: gazeData_gazeListener gazeData_init constructor_def)
  have ready: "isInitialized ?s4 \<and> (\<lambda>calls. True) (webgazer ?s4)"
    by (simp add: gazeListener_def pause_def resume_def init_def triggerEvent_def constructor_def)
  from gazeData_append_only [of ?s1 ?s5] run have "prefix (gazeData ?s1) (gazeData ?s5)"
    by blast
  moreover from gazeData_append_only [of ?s4 ?s5 "\<lambda>calls. True" "\<lambda>calls. False"] ready
  have "stop (\<lambda>calls. False) ?s5 = ?s5"
    by blast
  ultimately show ?thesis using run start by simp
qed

section \<open>Exporter\<close>

text \<open>\<^verbatim>\<open>exportGazeData\<close> hands out the current gaze sequence and the current
  calibration record as they are.\<close>

lemma exportGazeData_snapshot:
  "export_gazeData (exportGazeData agent numStr screen window now s) = gazeData s
   \<and> export_calibrationData (exportGazeData agent numStr screen window now s) = calibrationData s"
  by (simp add: exportGazeData_def)

lemma printable_zero: "printable (\<lambda>x. ''0'') 0"
  by (simp add: printable_def numberValue_finite parseNumber_def parseFraction_def
        parseExponent_def isDigit_def digitsValue_def scale_def Let_def)

text \<open>
  Claim C9 as stated: for every tracker state, the export serialized to JSON and
  deserialized again has a calibration record equal to the current one. With the
  persisted record \<^verbatim>\<open>1e400\<close>, a number literal beyond the range of doubles,
  \<^verbatim>\<open>loadCalibrationState\<close> restores the record \<^verbatim>\<open>Infinity\<close>; \<^verbatim>\<open>JSON.stringify\<close>
  writes \<^verbatim>\<open>Infinity\<close> as \<^verbatim>\<open>null\<close>, so what comes back is the export of a tracker
  whose calibration record is \<^verbatim>\<open>null\<close>. (The window and the screen are 0 by 0 and the
  time is 0, so every number of the metadata is printed \<^verbatim>\<open>0\<close>.)
\<close>

theorem export_of_infinite_record_comes_back_null:
  "calibrationData (snd (loadCalibrationState JSON_parse
       (constructor [''eyeTrackingCalibrated'' \<mapsto> ''true'', ''calibrationTimestamp'' \<mapsto> ''1'',
                     ''calibrationData'' \<mapsto> ''1e400'']))) = JInfinity
   \<and> roundTrip (\<lambda>x. ''0'')
        (exportValue (exportGazeData ''agent'' (\<lambda>x. ''0'') (0, 0) (0, 0) 0
           (snd (loadCalibrationState JSON_parse
              (constructor [''eyeTrackingCalibrated'' \<mapsto> ''true'', ''calibrationTimestamp'' \<mapsto> ''1'',
                            ''calibrationData'' \<mapsto> ''1e400''])))))
     = Some (exportValue (exportGazeData ''agent'' (\<lambda>x. ''0'') (0, 0) (0, 0) 0
           ((snd (loadCalibrationState JSON_parse
              (constructor [''eyeTrackingCalibrated'' \<mapsto> ''true'', ''calibrationTimestamp'' \<mapsto> ''1'',
                            ''calibrationData'' \<mapsto> ''1e400''])))
             \<lparr> calibrationData := JNull \<rparr>)))"
proof -
  let ?s = "snd (loadCalibrationState JSON_parse
              (constructor [''eyeTrackingCalibrated'' \<mapsto> ''true'', ''calibrationTimestamp'' \<mapsto> ''1'',
                            ''calibrationData'' \<mapsto> ''1e400'']))"
  let ?export = "\<lambda>s. exportValue (exportGazeData ''agent'' (\<lambda>x. ''0'') (0, 0) (0, 0) 0 s)"
  have s: "?s = (constructor [''eyeTrackingCalibrated'' \<mapsto> ''true'', ''calibrationTimestamp'' \<mapsto> ''1'',
                              ''calibrationData'' \<mapsto> ''1e400'']) \<lparr> calibrationData := JInfinity \<rparr>"
    by (simp add: loadCalibrationState_def constructor_def getItem_def parse_overflow)
  have same: "JSON_stringify (\<lambda>x. ''0'') (?export ?s)
              = JSON_stringify (\<lambda>x. ''0'') (?export (?s\<lparr> calibrationData := JNull \<rparr>))"
    unfolding s by (simp add: JSON_stringify_def exportValue_def exportGazeData_def constructor_def)
  have "representable (\<lambda>x. ''0'') (?export (?s\<lparr> calibrationData := JNull \<rparr>))"
    unfolding s by (simp add: exportValue_def exportGazeData_def constructor_def printable_zero)
  from JSON_roundtrip [OF this] same
  have "roundTrip (\<lambda>x. ''0'') (?export ?s) = Some (?export (?s\<lparr> calibrationData := JNull \<rparr>))"
    by (auto simp: roundTrip_def)
  with s show ?thesis by simp
qed

text \<open>
  Claim C9, amended. For every tracker state whose calibration record and gaze points are
  values that JSON text can carry (no \<^verbatim>\<open>undefined\<close>, \<^verbatim>\<open>NaN\<close> or infinity in them,
  distinct keys in each object, and every number printed by the platform as a literal that
  reads back as that number, which holds for every finite double), serializing the record
  returned by \<^verbatim>\<open>exportGazeData()\<close> to JSON and deserializing it again yields a gaze
  sequence equal to the current gaze sequence and a calibration record equal to the current
  calibration record.
\<close>

theorem export_roundtrip:
  assumes "representable numStr (calibrationData s)"
    and "\<forall>p \<in> set (gazeData s). representable numStr (gazePointValue p)"
    and "printable numStr now"
  shows "\<exists>parsed. roundTrip numStr (exportValue (exportGazeData agent numStr screen window now s))
                     = Some parsed
                   \<and> getProp parsed ''gazeData'' = JArr (map gazePointValue (gazeData s))
                   \<and> getProp parsed ''calibrationData'' = calibrationData s"
proof -
  let ?v = "exportValue (exportGazeData agent numStr screen window now s)"
  from assms have "representable numStr ?v"
    by (simp add: exportValue_def exportGazeData_def)
  from JSON_roundtrip [OF this] have "roundTrip numStr ?v = Some ?v"
    by (auto simp: roundTrip_def)
  then show ?thesis
    by (simp add: exportValue_def exportGazeData_def)
qed

text \<open>A tracker that holds one gaze point and no calibration record, exported at time
  2000, with the four numbers that occur printed in decimal.\<close>

theorem export_roundtrip_witness:
  "printable (\<lambda>x. if x = 10 then ''10'' else if x = 1000 then ''1000'' else if x = 2000 then ''2000'' else ''0'') 10
   \<and> printable (\<lambda>x. if x = 10 then ''10'' else if x = 1000 then ''1000'' else if x = 2000 then ''2000'' else ''0'') 1000
   \<and> printable (\<lambda>x. if x = 10 then ''10'' else if x = 1000 then ''1000'' else if x = 2000 then ''2000'' else ''0'') 0
   \<and> printable (\<lambda>x. if x = 10 then ''10'' else if x = 1000 then ''1000'' else if x = 2000 then ''2000'' else ''0'') 2000
   \<and> map_option (\<lambda>parsed. (getProp parsed ''gazeData'', getProp parsed ''calibrationData''))
         (roundTrip (\<lambda>x. if x = 10 then ''10'' else if x = 1000 then ''1000'' else if x = 2000 then ''2000'' else ''0'')
            (exportValue (exportGazeData ''agent''
               (\<lambda>x. if x = 10 then ''10'' else if x = 1000 then ''1000'' else if x = 2000 then ''2000'' else ''0'')
               (1000, 1000) (1000, 1000) 2000
               (gazeListener (Some (10, 10)) 0 1000 ''/abstract1.html'' (constructor (\<lambda>key. None))))))
       = Some (JArr [JObj [(''x'', JNum 10), (''y'', JNum 10), (''timestamp'', JNum 1000),
                           (''elapsedTime'', JNum 0), (''page'', JStr ''/abstract1.html'')]],
               JNull)"
proof -
  let ?numStr = "\<lambda>x::real. if x = 10 then ''10'' else if x = 1000 then ''1000''
                          else if x = 2000 then ''2000'' else ''0''"
  let ?s = "gazeListener (Some (10, 10)) 0 1000 ''/abstract1.html'' (constructor (\<lambda>key. None))"
  have p: "printable ?numStr 10" "printable ?numStr 1000" "printable ?numStr 0" "printable ?numStr 2000"
    by (simp_all add: printable_def numberValue_finite parseNumber_def parseFraction_def
          parseExponent_def isDigit_def digitsValue_def scale_def Let_def)
  have s: "gazeData ?s = [\<lparr> gaze_x = 10, gaze_y = 10, timestamp = 1000, elapsedTime = 0,
                              page = ''/abstract1.html'', time = None \<rparr>]"
          "calibrationData ?s = JNull"
    by (simp_all add: gazeListener_def constructor_def triggerEvent_def)
  have h1: "representable ?numStr (calibrationData ?s)"
    by (simp add: s)
  have h2: "\<forall>p \<in> set (gazeData ?s). representable ?numStr (gazePointValue p)"
    using p by (simp add: s gazePointValue_def)
  from export_roundtrip [OF h1 h2 p(4), of "''agent''" "(1000, 1000)" "(1000, 1000)"]
  obtain parsed where
    "roundTrip ?numStr (exportValue (exportGazeData ''agent'' ?numStr (1000, 1000) (1000, 1000) 2000 ?s))
     = Some parsed"
    "getProp parsed ''gazeData'' = JArr (map gazePointValue (gazeData ?s))"
    "getProp parsed ''calibrationData'' = calibrationData ?s"
    by blast
  with p show ?thesis
    by (simp add: s gazePointValue_def)
qed

end
